theory Spec2Isabelle
  imports Main "HOL-Library.Sublist"
begin

section \<open>The matterclient session client\<close>

text \<open>
  A shallow embedding of \<^verbatim>\<open>matterclient/matterclient.go\<close>. Every method of
  \<^verbatim>\<open>*MMClient\<close> becomes a function that takes the client struct and the trace of
  effects performed so far and returns its result together with the updated struct and
  the extended trace. A Go panic (nil dereference, failed type assertion, index out of
  range) is the left injection of the result. The backend library
  (\<^verbatim>\<open>model.Client\<close>), the websocket library, the JSON decoder and the backoff
  library are not part of the repository: their answers are read from an environment
  record, indexed by the number of earlier requests of the same kind, so that every
  sequence of answers can be expressed.
\<close>

subsection \<open>Structs\<close>

record Credentials =
  cred_Login :: string
  cred_Team :: string
  cred_Pass :: string
  cred_Server :: string
  cred_NoTLS :: bool

text \<open>The fields of the library's structs that the client reads or writes.\<close>

record model_User =
  user_Id :: string
  user_Username :: string
  user_TeamId :: string

record model_Team =
  team_Id :: string
  team_Name :: string

record model_Channel =
  chan_Id :: string
  chan_Name :: string
  chan_Header :: string

record model_ChannelList =
  cl_Channels :: "model_Channel list"

record model_Post =
  post_UserId :: string
  post_ChannelId :: string
  post_Message :: string

record model_PostList =
  pl_Order :: "string list"
  pl_Posts :: "(string \<times> model_Post) list"

record model_Message =
  raw_Action :: string
  raw_Props :: "string \<rightharpoonup> string"

record model_AppError =
  err_Message :: string
  err_DetailedError :: string

text \<open>
  \<^verbatim>\<open>Result.Data\<close> is an \<^verbatim>\<open>interface{}\<close>; the constructors are the dynamic types the
  client asserts. A pointer payload may be a typed nil (\<open>None\<close>); \<open>DataOther\<close> stands for any
  other dynamic type. A map \<^verbatim>\<open>map[string]*model.User\<close> is a partial function: the code only
  ever compares an entry with nil, so a missing key and a nil entry are the same.
\<close>

datatype data =
    DataUser "model_User option"
  | DataTeam "model_Team option"
  | DataUsers "string \<rightharpoonup> model_User"
  | DataChannelList "model_ChannelList option"
  | DataPostList "model_PostList option"
  | DataOther

record model_Result =
  res_Data :: data

record model_Client =
  client_Url :: string
  client_AuthToken :: string

record Message =
  msg_Raw :: model_Message
  msg_Post :: "model_Post option"
  msg_Team :: string
  msg_Channel :: string
  msg_Username :: string
  msg_Text :: string

text \<open>
  The client struct. Pointer fields are options (\<open>None\<close> is nil, as after \<^verbatim>\<open>New\<close>); the
  embedded \<^verbatim>\<open>*Credentials\<close> is set by \<^verbatim>\<open>New\<close> and never nil. \<^verbatim>\<open>MessageChan\<close> is
  not a field here: a send on it is a \<open>Send\<close> event of the trace. A websocket connection
  is a handle number.
\<close>

record MMClient =
  Credentials :: Credentials
  Client :: "model_Client option"
  WsClient :: "nat option"
  Channels :: "model_ChannelList option"
  MoreChannels :: "model_ChannelList option"
  User :: "model_User option"
  Users :: "string \<rightharpoonup> model_User"
  Team :: "model_Team option"

subsection \<open>Effects\<close>

text \<open>The requests the client sends through \<^verbatim>\<open>model.Client\<close>, with their arguments.\<close>

datatype request =
    Client_LoginByEmail string string string
  | Client_GetMyTeam string
  | Client_GetProfiles string string
  | Client_GetChannels string
  | Client_GetMoreChannels string
  | Client_CreatePost model_Post
  | Client_JoinChannel string
  | Client_GetPostsSince string int
  | Client_SearchPosts string
  | Client_GetPosts string int int string
  | Client_UpdateChannelHeader "(string \<times> string) list"
  | Client_UpdateLastViewedAt string

text \<open>
  Log lines record the arguments of the format string; rendering is the log library's.
\<close>

datatype logline =
    LogRetryingLogin string string string
  | LogLogin model_AppError nat
  | LogWss string nat
  | LogError string
  | LogUpdatingChannelHeader string string
  | LogPostingLastView string
  | LogAppError model_AppError

datatype event =
    Rest request
  | Dial string string string
  | ReadJSON_on nat
  | Sleep nat
  | Log logline
  | Send Message

datatype panic = NilDereference | TypeAssertion | IndexOutOfRange

type_synonym response = "model_Result option \<times> model_AppError option"

text \<open>
  The environment: what the outside answers. \<open>rest k req\<close> is the pair
  \<^verbatim>\<open>(*Result, *AppError)\<close> returned to the \<open>k\<close>-th request; \<open>token k\<close> the auth token the
  library stores in the client when the \<open>k\<close>-th request is a successful login;
  \<open>dial k url key value\<close> the connection and error of the \<open>k\<close>-th websocket dial;
  \<open>ReadJSON k ws v\<close> the content of the target variable after the \<open>k\<close>-th read into it
  and the read's error; \<open>delay t a\<close> the jittered duration of attempt \<open>a\<close> asked at trace
  length \<open>t\<close>; \<open>PostFromJson\<close> the library's decoder (nil on malformed input);
  \<open>ACTION_POSTED\<close> and \<open>HEADER_AUTH\<close> the library's constants.
\<close>

record env =
  rest :: "nat \<Rightarrow> request \<Rightarrow> response"
  token :: "nat \<Rightarrow> string"
  dial :: "nat \<Rightarrow> string \<Rightarrow> string \<Rightarrow> string \<Rightarrow> nat option \<times> string option"
  ReadJSON :: "nat \<Rightarrow> nat \<Rightarrow> model_Message \<Rightarrow> model_Message \<times> string option"
  delay :: "nat \<Rightarrow> nat \<Rightarrow> nat"
  PostFromJson :: "string \<Rightarrow> model_Post option"
  ACTION_POSTED :: string
  HEADER_AUTH :: string

fun is_Rest :: "event \<Rightarrow> bool" where
  "is_Rest (Rest r) = True"
| "is_Rest e = False"

fun is_Dial :: "event \<Rightarrow> bool" where
  "is_Dial (Dial u k v) = True"
| "is_Dial e = False"

fun is_ReadJSON :: "event \<Rightarrow> bool" where
  "is_ReadJSON (ReadJSON_on ws) = True"
| "is_ReadJSON e = False"

fun is_Sleep :: "event \<Rightarrow> bool" where
  "is_Sleep (Sleep d) = True"
| "is_Sleep e = False"

fun is_Send :: "event \<Rightarrow> bool" where
  "is_Send (Send msg) = True"
| "is_Send e = False"

fun is_GetProfiles :: "event \<Rightarrow> bool" where
  "is_GetProfiles (Rest (Client_GetProfiles t e)) = True"
| "is_GetProfiles e = False"

fun is_GetChannels :: "event \<Rightarrow> bool" where
  "is_GetChannels (Rest (Client_GetChannels e)) = True"
| "is_GetChannels e = False"

definition count_events :: "(event \<Rightarrow> bool) \<Rightarrow> event list \<Rightarrow> nat" where
  "count_events P tr = length (filter P tr)"

text \<open>
  A call of a method of \<^verbatim>\<open>m.Client\<close>: on a nil client the library dereferences nil
  before anything is sent; otherwise the request is recorded and answered.
\<close>

definition rest_call ::
  "env \<Rightarrow> MMClient \<Rightarrow> event list \<Rightarrow> request \<Rightarrow> (panic + response) \<times> event list" where
  "rest_call env m tr req =
     (case Client m of
        None \<Rightarrow> (Inl NilDereference, tr)
      | Some c \<Rightarrow> (Inr (rest env (count_events is_Rest tr) req), tr @ [Rest req]))"

subsection \<open>The string functions used\<close>

text \<open>
  \<^verbatim>\<open>strings.Index\<close>: the position of the first occurrence; \<open>None\<close> is Go's \<open>-1\<close>.
\<close>

fun Index :: "string \<Rightarrow> string \<Rightarrow> nat option" where
  "Index [] sep = (if sep = [] then Some 0 else None)"
| "Index (c # cs) sep =
     (if prefix sep (c # cs) then Some 0 else map_option Suc (Index cs sep))"

definition Contains :: "string \<Rightarrow> string \<Rightarrow> bool" where
  "Contains s substr = (Index s substr \<noteq> None)"

lemma Index_Some_le: "Index s sep = Some i \<Longrightarrow> i + length sep \<le> length s"
  by (induction s arbitrary: i) (auto split: if_splits dest: prefix_length_le)

lemma Index_Some_drop:
  "Index s sep = Some i \<Longrightarrow> sep \<noteq> [] \<Longrightarrow> length s - (i + length sep) < length s"
  using Index_Some_le [of s sep i] by (cases sep) auto

text \<open>
  \<^verbatim>\<open>strings.Split\<close>: cut at the first occurrence of the separator, then split what
  follows it. An empty separator explodes the string (into bytes here, into UTF-8
  sequences in Go); the client only splits at \<open>__\<close>.
\<close>

function Split :: "string \<Rightarrow> string \<Rightarrow> string list" where
  "Split s sep =
     (if sep = [] then map (\<lambda>c. [c]) s
      else case Index s sep of
             None \<Rightarrow> [s]
           | Some i \<Rightarrow> take i s # Split (drop (i + length sep) s) sep)"
  by pat_completeness auto
termination
  by (relation "measure (\<lambda>(s, sep). length s)") (auto simp: Index_Some_drop)

declare Split.simps [simp del]

text \<open>
  \<^verbatim>\<open>strings.Replace(s, old, new, n)\<close> for a non-empty \<open>old\<close> and \<open>n \<ge> 0\<close>: the first
  \<open>n\<close> occurrences, from the left.
\<close>

fun Replace :: "string \<Rightarrow> string \<Rightarrow> string \<Rightarrow> nat \<Rightarrow> string" where
  "Replace s old new 0 = s"
| "Replace s old new (Suc n) =
     (case Index s old of
        None \<Rightarrow> s
      | Some i \<Rightarrow> take i s @ new @ Replace (drop (i + length old) s) old new n)"

subsection \<open>Cache refresh\<close>

text \<open>
  \<^verbatim>\<open>UpdateUsers\<close>: the error of \<^verbatim>\<open>GetProfiles\<close> is dropped and the result dereferenced
  and asserted as it is. The returned \<open>string option\<close> is the Go \<^verbatim>\<open>error\<close>
  (\<open>None\<close> is nil).
\<close>

definition UpdateUsers ::
  "env \<Rightarrow> MMClient \<Rightarrow> event list \<Rightarrow> (panic + string option) \<times> MMClient \<times> event list" where
  "UpdateUsers env m tr =
     (case User m of
        None \<Rightarrow> (Inl NilDereference, m, tr)
      | Some u \<Rightarrow>
          (case rest_call env m tr (Client_GetProfiles (user_TeamId u) '''') of
             (Inl p, tr1) \<Rightarrow> (Inl p, m, tr1)
           | (Inr (mmusers, _), tr1) \<Rightarrow>
               (case mmusers of
                  None \<Rightarrow> (Inl NilDereference, m, tr1)
                | Some r \<Rightarrow>
                    (case res_Data r of
                       DataUsers us \<Rightarrow> (Inr None, m\<lparr>Users := us\<rparr>, tr1)
                     | _ \<Rightarrow> (Inl TypeAssertion, m, tr1)))))"

definition UpdateChannels ::
  "env \<Rightarrow> MMClient \<Rightarrow> event list \<Rightarrow> (panic + string option) \<times> MMClient \<times> event list" where
  "UpdateChannels env m tr =
     (case rest_call env m tr (Client_GetChannels '''') of
        (Inl p, tr1) \<Rightarrow> (Inl p, m, tr1)
      | (Inr (mmchannels, _), tr1) \<Rightarrow>
          (case mmchannels of
             None \<Rightarrow> (Inl NilDereference, m, tr1)
           | Some r \<Rightarrow>
               (case res_Data r of
                  DataChannelList cl \<Rightarrow>
                    (let m1 = m\<lparr>Channels := cl\<rparr> in
                     case rest_call env m1 tr1 (Client_GetMoreChannels '''') of
                       (Inl p, tr2) \<Rightarrow> (Inl p, m1, tr2)
                     | (Inr (mmchannels2, _), tr2) \<Rightarrow>
                         (case mmchannels2 of
                            None \<Rightarrow> (Inl NilDereference, m1, tr2)
                          | Some r2 \<Rightarrow>
                              (case res_Data r2 of
                                 DataChannelList mcl \<Rightarrow>
                                   (Inr None, m1\<lparr>MoreChannels := mcl\<rparr>, tr2)
                               | _ \<Rightarrow> (Inl TypeAssertion, m1, tr2))))
                | _ \<Rightarrow> (Inl TypeAssertion, m, tr1))))"

subsection \<open>Channel lookups\<close>

text \<open>
  \<^verbatim>\<open>append(m.Channels.Channels, m.MoreChannels.Channels...)\<close>: both pointers are
  dereferenced. The elements of the slices are taken to be non-nil channels.
\<close>

definition all_channels :: "MMClient \<Rightarrow> panic + model_Channel list" where
  "all_channels m =
     (case Channels m of
        None \<Rightarrow> Inl NilDereference
      | Some cl \<Rightarrow>
          (case MoreChannels m of
             None \<Rightarrow> Inl NilDereference
           | Some mcl \<Rightarrow> Inr (cl_Channels cl @ cl_Channels mcl)))"

text \<open>The three range loops return at the first match.\<close>

definition name_of_id :: "model_Channel list \<Rightarrow> string \<Rightarrow> string option" where
  "name_of_id cs ident = map_option chan_Name (find (\<lambda>channel. chan_Id channel = ident) cs)"

definition id_of_name :: "model_Channel list \<Rightarrow> string \<Rightarrow> string option" where
  "id_of_name cs name = map_option chan_Id (find (\<lambda>channel. chan_Name channel = name) cs)"

definition header_of_id :: "model_Channel list \<Rightarrow> string \<Rightarrow> string option" where
  "header_of_id cs ident = map_option chan_Header (find (\<lambda>channel. chan_Id channel = ident) cs)"

definition GetChannelName ::
  "env \<Rightarrow> MMClient \<Rightarrow> event list \<Rightarrow> string \<Rightarrow> (panic + string) \<times> MMClient \<times> event list" where
  "GetChannelName env m tr ident =
     (case all_channels m of
        Inl p \<Rightarrow> (Inl p, m, tr)
      | Inr cs \<Rightarrow>
          (case name_of_id cs ident of
             Some name \<Rightarrow> (Inr name, m, tr)
           | None \<Rightarrow>
               (case UpdateChannels env m tr of
                  (Inl p, m1, tr1) \<Rightarrow> (Inl p, m1, tr1)
                | (Inr _, m1, tr1) \<Rightarrow>
                    (case all_channels m1 of
                       Inl p \<Rightarrow> (Inl p, m1, tr1)
                     | Inr cs1 \<Rightarrow>
                         (case name_of_id cs1 ident of
                            Some name \<Rightarrow> (Inr name, m1, tr1)
                          | None \<Rightarrow> (Inr '''', m1, tr1))))))"

definition GetChannelId ::
  "MMClient \<Rightarrow> event list \<Rightarrow> string \<Rightarrow> (panic + string) \<times> MMClient \<times> event list" where
  "GetChannelId m tr name =
     (case all_channels m of
        Inl p \<Rightarrow> (Inl p, m, tr)
      | Inr cs \<Rightarrow>
          (case id_of_name cs name of
             Some ident \<Rightarrow> (Inr ident, m, tr)
           | None \<Rightarrow> (Inr '''', m, tr)))"

definition GetChannelHeader ::
  "MMClient \<Rightarrow> event list \<Rightarrow> string \<Rightarrow> (panic + string) \<times> MMClient \<times> event list" where
  "GetChannelHeader m tr ident =
     (case all_channels m of
        Inl p \<Rightarrow> (Inl p, m, tr)
      | Inr cs \<Rightarrow>
          (case header_of_id cs ident of
             Some header \<Rightarrow> (Inr header, m, tr)
           | None \<Rightarrow> (Inr '''', m, tr)))"

subsection \<open>Command surface\<close>

definition PostMessage ::
  "env \<Rightarrow> MMClient \<Rightarrow> event list \<Rightarrow> string \<Rightarrow> string \<Rightarrow> (panic + unit) \<times> MMClient \<times> event list" where
  "PostMessage env m tr channel text =
     (case GetChannelId m tr channel of
        (Inl p, m1, tr1) \<Rightarrow> (Inl p, m1, tr1)
      | (Inr ident, m1, tr1) \<Rightarrow>
          (let post = \<lparr>post_UserId = '''', post_ChannelId = ident, post_Message = text\<rparr> in
           case rest_call env m1 tr1 (Client_CreatePost post) of
             (Inl p, tr2) \<Rightarrow> (Inl p, m1, tr2)
           | (Inr _, tr2) \<Rightarrow> (Inr (), m1, tr2)))"

definition JoinChannel ::
  "env \<Rightarrow> MMClient \<Rightarrow> event list \<Rightarrow> string \<Rightarrow> (panic + string option) \<times> MMClient \<times> event list" where
  "JoinChannel env m tr channel =
     (case GetChannelId m tr (Replace channel ''#'' '''' (Suc 0)) of
        (Inl p, m1, tr1) \<Rightarrow> (Inl p, m1, tr1)
      | (Inr ident, m1, tr1) \<Rightarrow>
          if ident = '''' then (Inr (Some ''failed to join''), m1, tr1)
          else
            (case GetChannelId m1 tr1 (Replace channel ''#'' '''' (Suc 0)) of
               (Inl p, m2, tr2) \<Rightarrow> (Inl p, m2, tr2)
             | (Inr ident2, m2, tr2) \<Rightarrow>
                 (case rest_call env m2 tr2 (Client_JoinChannel ident2) of
                    (Inl p, tr3) \<Rightarrow> (Inl p, m2, tr3)
                  | (Inr (_, err), tr3) \<Rightarrow>
                      (case err of
                         Some e \<Rightarrow> (Inr (Some ''failed to join''), m2, tr3)
                       | None \<Rightarrow> (Inr None, m2, tr3)))))"

text \<open>
  The three history calls share one shape: nil on error, otherwise the asserted payload
  of the result.
\<close>

definition post_list_of ::
  "MMClient \<Rightarrow> (panic + response) \<times> event list \<Rightarrow>
   (panic + model_PostList option) \<times> MMClient \<times> event list" where
  "post_list_of m answer =
     (case answer of
        (Inl p, tr1) \<Rightarrow> (Inl p, m, tr1)
      | (Inr (res, err), tr1) \<Rightarrow>
          (case err of
             Some e \<Rightarrow> (Inr None, m, tr1)
           | None \<Rightarrow>
               (case res of
                  None \<Rightarrow> (Inl NilDereference, m, tr1)
                | Some r \<Rightarrow>
                    (case res_Data r of
                       DataPostList pl \<Rightarrow> (Inr pl, m, tr1)
                     | _ \<Rightarrow> (Inl TypeAssertion, m, tr1)))))"

definition GetPostsSince ::
  "env \<Rightarrow> MMClient \<Rightarrow> event list \<Rightarrow> string \<Rightarrow> int \<Rightarrow>
   (panic + model_PostList option) \<times> MMClient \<times> event list" where
  "GetPostsSince env m tr channelId time =
     post_list_of m (rest_call env m tr (Client_GetPostsSince channelId time))"

definition SearchPosts ::
  "env \<Rightarrow> MMClient \<Rightarrow> event list \<Rightarrow> string \<Rightarrow>
   (panic + model_PostList option) \<times> MMClient \<times> event list" where
  "SearchPosts env m tr query =
     post_list_of m (rest_call env m tr (Client_SearchPosts query))"

definition GetPosts ::
  "env \<Rightarrow> MMClient \<Rightarrow> event list \<Rightarrow> string \<Rightarrow> int \<Rightarrow>
   (panic + model_PostList option) \<times> MMClient \<times> event list" where
  "GetPosts env m tr channelId limit =
     post_list_of m (rest_call env m tr (Client_GetPosts channelId 0 limit ''''))"

definition UpdateChannelHeader ::
  "env \<Rightarrow> MMClient \<Rightarrow> event list \<Rightarrow> string \<Rightarrow> string \<Rightarrow> (panic + unit) \<times> MMClient \<times> event list" where
  "UpdateChannelHeader env m tr channelId header =
     (let data = [(''channel_id'', channelId), (''channel_header'', header)];
          tr0 = tr @ [Log (LogUpdatingChannelHeader channelId header)]
      in case rest_call env m tr0 (Client_UpdateChannelHeader data) of
           (Inl p, tr1) \<Rightarrow> (Inl p, m, tr1)
         | (Inr (_, err), tr1) \<Rightarrow>
             (case err of
                Some e \<Rightarrow> (Inr (), m, tr1 @ [Log (LogAppError e)])
              | None \<Rightarrow> (Inr (), m, tr1)))"

definition UpdateLastViewed ::
  "env \<Rightarrow> MMClient \<Rightarrow> event list \<Rightarrow> string \<Rightarrow> (panic + unit) \<times> MMClient \<times> event list" where
  "UpdateLastViewed env m tr channelId =
     (let tr0 = tr @ [Log (LogPostingLastView channelId)]
      in case rest_call env m tr0 (Client_UpdateLastViewedAt channelId) of
           (Inl p, tr1) \<Rightarrow> (Inl p, m, tr1)
         | (Inr (_, err), tr1) \<Rightarrow>
             (case err of
                Some e \<Rightarrow> (Inr (), m, tr1 @ [Log (LogAppError e)])
              | None \<Rightarrow> (Inr (), m, tr1)))"

subsection \<open>Message normalisation\<close>

text \<open>Indexing a slice panics out of range.\<close>

definition index :: "'a list \<Rightarrow> nat \<Rightarrow> panic + 'a" where
  "index xs i = (if i < length xs then Inr (xs ! i) else Inl IndexOutOfRange)"

text \<open>
  The username of a cache entry, \<^verbatim>\<open>m.Users[id].Username\<close>: a missing entry is nil and
  the field access panics.
\<close>

definition username_of :: "MMClient \<Rightarrow> string \<Rightarrow> panic + string" where
  "username_of m ident =
     (case Users m ident of
        None \<Rightarrow> Inl NilDereference
      | Some u \<Rightarrow> Inr (user_Username u))"

text \<open>
  The direct-message block of \<^verbatim>\<open>parseActionPost\<close>: the channel name to display for the
  resolved name \<open>channel\<close>.
\<close>

definition direct_message :: "MMClient \<Rightarrow> string \<Rightarrow> panic + string" where
  "direct_message m channel =
     (if Contains channel ''__'' then
        (let rcvusers = Split channel ''__'' in
         case index rcvusers 0 of
           Inl p \<Rightarrow> Inl p
         | Inr r0 \<Rightarrow>
             (case User m of
                None \<Rightarrow> Inl NilDereference
              | Some me \<Rightarrow>
                  if r0 \<noteq> user_Id me then username_of m r0
                  else (case index rcvusers 1 of
                          Inl p \<Rightarrow> Inl p
                        | Inr r1 \<Rightarrow> username_of m r1)))
      else Inr channel)"

text \<open>
  The user block of \<^verbatim>\<open>parseActionPost\<close>: refresh the user cache when the acting user
  is not in it.
\<close>

definition refresh_if_unknown ::
  "env \<Rightarrow> MMClient \<Rightarrow> event list \<Rightarrow> string \<Rightarrow> (panic + string option) \<times> MMClient \<times> event list" where
  "refresh_if_unknown env m tr ident =
     (if Users m ident = None then UpdateUsers env m tr else (Inr None, m, tr))"

definition parseActionPost ::
  "env \<Rightarrow> MMClient \<Rightarrow> event list \<Rightarrow> Message \<Rightarrow> (panic + Message) \<times> MMClient \<times> event list" where
  "parseActionPost env m tr rmsg =
     (case PostFromJson env (case raw_Props (msg_Raw rmsg) ''post'' of None \<Rightarrow> '''' | Some s \<Rightarrow> s) of
        None \<Rightarrow> (Inl NilDereference, m, tr)
      | Some data \<Rightarrow>
          (case refresh_if_unknown env m tr (post_UserId data) of
             (Inl p, m1, tr1) \<Rightarrow> (Inl p, m1, tr1)
           | (Inr _, m1, tr1) \<Rightarrow>
               (case username_of m1 (post_UserId data) of
                  Inl p \<Rightarrow> (Inl p, m1, tr1)
                | Inr username \<Rightarrow>
                    (case GetChannelName env m1 tr1 (post_ChannelId data) of
                       (Inl p, m2, tr2) \<Rightarrow> (Inl p, m2, tr2)
                     | (Inr channel, m2, tr2) \<Rightarrow>
                         (case direct_message m2 channel of
                            Inl p \<Rightarrow> (Inl p, m2, tr2)
                          | Inr shown \<Rightarrow>
                              (Inr (rmsg\<lparr>msg_Username := username, msg_Channel := shown,
                                         msg_Text := post_Message data, msg_Post := Some data\<rparr>),
                               m2, tr2))))))"

definition parseMessage ::
  "env \<Rightarrow> MMClient \<Rightarrow> event list \<Rightarrow> Message \<Rightarrow> (panic + Message) \<times> MMClient \<times> event list" where
  "parseMessage env m tr rmsg =
     (if raw_Action (msg_Raw rmsg) = ACTION_POSTED env then parseActionPost env m tr rmsg
      else (Inr rmsg, m, tr))"

subsection \<open>Login\<close>

text \<open>
  The backoff library's state as the client uses it. The duration itself is jittered
  (random) and comes from the environment; \<^verbatim>\<open>Duration\<close> counts the attempt,
  \<^verbatim>\<open>Reset\<close> zeroes the count. Durations are in nanoseconds.
\<close>

record Backoff =
  bo_Min :: nat
  bo_Max :: nat
  bo_Jitter :: bool
  bo_attempt :: nat

definition Duration :: "env \<Rightarrow> Backoff \<Rightarrow> event list \<Rightarrow> nat \<times> Backoff" where
  "Duration env b tr = (delay env (length tr) (bo_attempt b), b\<lparr>bo_attempt := Suc (bo_attempt b)\<rparr>)"

definition Reset :: "Backoff \<Rightarrow> Backoff" where
  "Reset b = b\<lparr>bo_attempt := 0\<rparr>"

text \<open>
  The login errors the first loop retries: the detail text has one of the two markers.
  The loop returns on the negation of this.
\<close>

definition transient :: "model_AppError \<Rightarrow> bool" where
  "transient appErr =
     (Contains (err_DetailedError appErr) ''connection refused'' \<or>
      Contains (err_DetailedError appErr) ''invalid character'')"

text \<open>
  One pass through the body of the first loop of \<^verbatim>\<open>Login\<close>. \<open>Inl\<close> leaves the loop:
  with \<open>Inl msg\<close> for the \<^verbatim>\<open>return errors.New(appErr.Message)\<close>, with \<open>Inr\<close> for
  the \<^verbatim>\<open>break\<close>, carrying \<^verbatim>\<open>myinfo\<close> and the token the library stored in the
  client. \<open>Inr\<close> is the \<^verbatim>\<open>continue\<close>, with the backoff and the trace the next pass
  starts from.
\<close>

definition login_attempt ::
  "env \<Rightarrow> Credentials \<Rightarrow> Backoff \<Rightarrow> event list \<Rightarrow>
   ((string + model_Result option \<times> string) \<times> Backoff \<times> event list) + (Backoff \<times> event list)" where
  "login_attempt env cr b tr =
     (let tr1 = tr @ [Log (LogRetryingLogin (cred_Team cr) (cred_Login cr) (cred_Server cr))];
          req = Client_LoginByEmail (cred_Team cr) (cred_Login cr) (cred_Pass cr);
          k = count_events is_Rest tr1;
          (myinfo, appErr) = rest env k req;
          tr2 = tr1 @ [Rest req]
      in case appErr of
           Some e \<Rightarrow>
             (let (d, b1) = Duration env b tr2 in
              if \<not> Contains (err_DetailedError e) ''connection refused'' \<and>
                 \<not> Contains (err_DetailedError e) ''invalid character''
              then Inl (Inl (err_Message e), b1, tr2)
              else Inr (b1, tr2 @ [Log (LogLogin e d), Sleep d]))
         | None \<Rightarrow> Inl (Inr (myinfo, token env k), b, tr2))"

text \<open>
  The loop. It may run forever: \<open>None\<close> is the loop that never leaves.
\<close>

partial_function (option) login_loop ::
  "env \<Rightarrow> Credentials \<Rightarrow> Backoff \<Rightarrow> event list \<Rightarrow>
   ((string + model_Result option \<times> string) \<times> Backoff \<times> event list) option" where
  "login_loop env cr b tr =
     (case login_attempt env cr b tr of
        Inl left \<Rightarrow> Some left
      | Inr (b1, tr1) \<Rightarrow> login_loop env cr b1 tr1)"

text \<open>
  Where the loop stands after \<open>n\<close> passes: still running (\<open>Inr\<close>, with the backoff and
  the trace it has reached) or left on the way.
\<close>

fun login_attempts ::
  "nat \<Rightarrow> env \<Rightarrow> Credentials \<Rightarrow> Backoff \<Rightarrow> event list \<Rightarrow>
   ((string + model_Result option \<times> string) \<times> Backoff \<times> event list) + (Backoff \<times> event list)" where
  "login_attempts 0 env cr b tr = Inr (b, tr)"
| "login_attempts (Suc n) env cr b tr =
     (case login_attempt env cr b tr of
        Inl left \<Rightarrow> Inl left
      | Inr (b1, tr1) \<Rightarrow> login_attempts n env cr b1 tr1)"

text \<open>The second loop: dial until the websocket is connected.\<close>

partial_function (option) dial_loop ::
  "env \<Rightarrow> string \<Rightarrow> string \<Rightarrow> string \<Rightarrow> Backoff \<Rightarrow> event list \<Rightarrow>
   (nat option \<times> Backoff \<times> event list) option" where
  "dial_loop env wsurl key val b tr =
     (let (ws, err) = dial env (count_events is_Dial tr) wsurl key val;
          tr1 = tr @ [Dial wsurl key val]
      in case err of
           Some e \<Rightarrow>
             (let (d, b1) = Duration env b tr1 in
              dial_loop env wsurl key val b1 (tr1 @ [Log (LogWss e d), Sleep d]))
         | None \<Rightarrow> Some (ws, b, tr1))"

text \<open>
  The end of \<^verbatim>\<open>Login\<close>, once the connection is stored: populate users and channels,
  return nil.
\<close>

definition populate ::
  "env \<Rightarrow> MMClient \<Rightarrow> event list \<Rightarrow> (panic + string option) \<times> MMClient \<times> event list" where
  "populate env m tr =
     (case UpdateUsers env m tr of
        (Inl p, m1, tr1) \<Rightarrow> (Inl p, m1, tr1)
      | (Inr _, m1, tr1) \<Rightarrow>
          (case UpdateChannels env m1 tr1 of
             (Inl p, m2, tr2) \<Rightarrow> (Inl p, m2, tr2)
           | (Inr _, m2, tr2) \<Rightarrow> (Inr None, m2, tr2)))"

definition Login ::
  "env \<Rightarrow> MMClient \<Rightarrow> event list \<Rightarrow> ((panic + string option) \<times> MMClient \<times> event list) option" where
  "Login env m tr =
     (let b = \<lparr>bo_Min = 1000000000, bo_Max = 300000000000, bo_Jitter = True, bo_attempt = 0\<rparr>;
          cr = Credentials m;
          uriScheme = (if cred_NoTLS cr then ''http://'' else ''https://'');
          wsScheme = (if cred_NoTLS cr then ''ws://'' else ''wss://'');
          c = \<lparr>client_Url = uriScheme @ cred_Server cr, client_AuthToken = ''''\<rparr>;
          m0 = m\<lparr>Client := Some c\<rparr>
      in case login_loop env cr b tr of
           None \<Rightarrow> None
         | Some (Inl msg, b1, tr1) \<Rightarrow> Some (Inr (Some msg), m0, tr1)
         | Some (Inr (myinfo, tok), b1, tr1) \<Rightarrow>
             (let b2 = Reset b1;
                  m1 = m0\<lparr>Client := Some (c\<lparr>client_AuthToken := tok\<rparr>)\<rparr>
              in case myinfo of
                   None \<Rightarrow> Some (Inl NilDereference, m1, tr1)
                 | Some r \<Rightarrow>
                     (case res_Data r of
                        DataUser u \<Rightarrow>
                          (let m2 = m1\<lparr>User := u\<rparr>;
                               (myinfo2, _) = rest env (count_events is_Rest tr1) (Client_GetMyTeam '''');
                               tr2 = tr1 @ [Rest (Client_GetMyTeam '''')]
                           in case myinfo2 of
                                None \<Rightarrow> Some (Inl NilDereference, m2, tr2)
                              | Some r2 \<Rightarrow>
                                  (case res_Data r2 of
                                     DataTeam t \<Rightarrow>
                                       (let m3 = m2\<lparr>Team := t\<rparr>;
                                            wsurl = wsScheme @ cred_Server cr @ ''/api/v1/websocket''
                                        in case dial_loop env wsurl (HEADER_AUTH env) (''BEARER '' @ tok) b2 tr2 of
                                             None \<Rightarrow> None
                                           | Some (ws, b3, tr3) \<Rightarrow>
                                               Some (populate env (m3\<lparr>WsClient := ws\<rparr>) tr3))
                                   | _ \<Rightarrow> Some (Inl TypeAssertion, m2, tr2)))
                      | _ \<Rightarrow> Some (Inl TypeAssertion, m1, tr1))))"

subsection \<open>The receiver loop\<close>

text \<open>
  Lines 126 to 128 of the loop body: wrap the frame variable, normalise, send.
\<close>

definition deliver ::
  "env \<Rightarrow> MMClient \<Rightarrow> model_Message \<Rightarrow> event list \<Rightarrow> (panic + unit) \<times> MMClient \<times> event list" where
  "deliver env m rmsg tr =
     (let msg = \<lparr>msg_Raw = rmsg, msg_Post = None, msg_Team = cred_Team (Credentials m),
                 msg_Channel = '''', msg_Username = '''', msg_Text = ''''\<rparr>
      in case parseMessage env m tr msg of
           (Inl p, m1, tr1) \<Rightarrow> (Inl p, m1, tr1)
         | (Inr msg1, m1, tr1) \<Rightarrow> (Inr (), m1, tr1 @ [Send msg1]))"

text \<open>
  One pass through the body of the \<^verbatim>\<open>for\<close> of \<^verbatim>\<open>WsReceiver\<close>. The frame variable
  \<^verbatim>\<open>rmsg\<close> is declared outside the loop and is part of the state. The result of
  \<^verbatim>\<open>m.Login()\<close> is not looked at. \<open>None\<close>: the pass never ends, because the login
  never returns.
\<close>

definition WsReceiver_pass ::
  "env \<Rightarrow> MMClient \<Rightarrow> model_Message \<Rightarrow> event list \<Rightarrow>
   ((panic + unit) \<times> MMClient \<times> model_Message \<times> event list) option" where
  "WsReceiver_pass env m rmsg tr =
     (case WsClient m of
        None \<Rightarrow> Some (Inl NilDereference, m, rmsg, tr)
      | Some ws \<Rightarrow>
          (let (rmsg1, err) = ReadJSON env (count_events is_ReadJSON tr) ws rmsg;
               tr1 = tr @ [ReadJSON_on ws]
           in case err of
                Some e \<Rightarrow>
                  (case Login env m (tr1 @ [Log (LogError e)]) of
                     None \<Rightarrow> None
                   | Some (Inl p, m1, tr2) \<Rightarrow> Some (Inl p, m1, rmsg1, tr2)
                   | Some (Inr _, m1, tr2) \<Rightarrow>
                       (case deliver env m1 rmsg1 tr2 of
                          (r, m2, tr3) \<Rightarrow> Some (r, m2, rmsg1, tr3)))
              | None \<Rightarrow>
                  (case deliver env m rmsg1 tr1 of
                     (r, m2, tr3) \<Rightarrow> Some (r, m2, rmsg1, tr3))))"

text \<open>
  The loop itself never returns; \<open>WsReceiver_passes n\<close> is the state after \<open>n\<close> passes,
  a panic ending it early. \<^verbatim>\<open>WsReceiver\<close> starts it on the zero frame.
\<close>

fun WsReceiver_passes ::
  "nat \<Rightarrow> env \<Rightarrow> MMClient \<Rightarrow> model_Message \<Rightarrow> event list \<Rightarrow>
   ((panic + unit) \<times> MMClient \<times> model_Message \<times> event list) option" where
  "WsReceiver_passes 0 env m rmsg tr = Some (Inr (), m, rmsg, tr)"
| "WsReceiver_passes (Suc n) env m rmsg tr =
     (case WsReceiver_pass env m rmsg tr of
        None \<Rightarrow> None
      | Some (Inl p, m1, rmsg1, tr1) \<Rightarrow> Some (Inl p, m1, rmsg1, tr1)
      | Some (Inr _, m1, rmsg1, tr1) \<Rightarrow> WsReceiver_passes n env m1 rmsg1 tr1)"

definition WsReceiver ::
  "nat \<Rightarrow> env \<Rightarrow> MMClient \<Rightarrow> event list \<Rightarrow>
   ((panic + unit) \<times> MMClient \<times> model_Message \<times> event list) option" where
  "WsReceiver n env m tr =
     WsReceiver_passes n env m \<lparr>raw_Action = '''', raw_Props = Map.empty\<rparr> tr"

subsection \<open>A concrete session and some backends\<close>

text \<open>
  A logged-in session of user \<open>alice\<close>, who has only herself in the user cache, and
  backends to run the functions above on concrete inputs: one that answers every request,
  one that is down, one that fails a single request, one that rejects the password, one
  that is down twice and then rejects, and one whose stream drops after the first frame.
  Their backoff doubles from one second.
\<close>

definition alice :: model_User where
  "alice = \<lparr>user_Id = ''u1'', user_Username = ''alice'', user_TeamId = ''t1''\<rparr>"

definition bob :: model_User where
  "bob = \<lparr>user_Id = ''u2'', user_Username = ''bob'', user_TeamId = ''t1''\<rparr>"

definition town :: model_Channel where
  "town = \<lparr>chan_Id = ''c1'', chan_Name = ''town'', chan_Header = ''welcome''\<rparr>"

definition offtopic :: model_Channel where
  "offtopic = \<lparr>chan_Id = ''c2'', chan_Name = ''ab'', chan_Header = ''anything''\<rparr>"

definition direct :: model_Channel where
  "direct = \<lparr>chan_Id = ''c3'', chan_Name = ''u1__u2'', chan_Header = ''private''\<rparr>"

definition creds :: Credentials where
  "creds = \<lparr>cred_Login = ''alice@example.org'', cred_Team = ''team'', cred_Pass = ''secret'',
            cred_Server = ''chat.example.org'', cred_NoTLS = False\<rparr>"

definition session :: MMClient where
  "session =
     \<lparr>Credentials = creds,
      Client = Some \<lparr>client_Url = ''https://chat.example.org'', client_AuthToken = ''tok''\<rparr>,
      WsClient = Some 0,
      Channels = Some \<lparr>cl_Channels = [town]\<rparr>,
      MoreChannels = Some \<lparr>cl_Channels = [offtopic]\<rparr>,
      User = Some alice,
      Users = [''u1'' \<mapsto> alice],
      Team = Some \<lparr>team_Id = ''t1'', team_Name = ''team''\<rparr>\<rparr>"

definition refused :: model_AppError where
  "refused = \<lparr>err_Message = ''We could not reach the server'',
              err_DetailedError = ''dial tcp 10.0.0.1:443: connection refused''\<rparr>"

definition rejected :: model_AppError where
  "rejected = \<lparr>err_Message = ''Login failed because of invalid password'',
               err_DetailedError = ''''\<rparr>"

definition answers :: "request \<Rightarrow> response" where
  "answers req =
     (case req of
        Client_LoginByEmail t l p \<Rightarrow> (Some \<lparr>res_Data = DataUser (Some alice)\<rparr>, None)
      | Client_GetMyTeam e \<Rightarrow>
          (Some \<lparr>res_Data = DataTeam (Some \<lparr>team_Id = ''t1'', team_Name = ''team''\<rparr>)\<rparr>, None)
      | Client_GetProfiles t e \<Rightarrow>
          (Some \<lparr>res_Data = DataUsers [''u1'' \<mapsto> alice, ''u2'' \<mapsto> bob]\<rparr>, None)
      | Client_GetChannels e \<Rightarrow>
          (Some \<lparr>res_Data = DataChannelList (Some \<lparr>cl_Channels = [town, direct]\<rparr>)\<rparr>, None)
      | Client_GetMoreChannels e \<Rightarrow>
          (Some \<lparr>res_Data = DataChannelList (Some \<lparr>cl_Channels = [offtopic]\<rparr>)\<rparr>, None)
      | _ \<Rightarrow> (Some \<lparr>res_Data = DataOther\<rparr>, None))"

definition decode :: "string \<Rightarrow> model_Post option" where
  "decode s =
     (if s = ''hello'' then
        Some \<lparr>post_UserId = ''u2'', post_ChannelId = ''c3'', post_Message = ''hello''\<rparr>
      else if s = ''news'' then
        Some \<lparr>post_UserId = ''u1'', post_ChannelId = ''c1'', post_Message = ''news''\<rparr>
      else if s = ''hey'' then
        Some \<lparr>post_UserId = ''u2'', post_ChannelId = ''c1'', post_Message = ''hey''\<rparr>
      else None)"

definition backend :: "(nat \<Rightarrow> request \<Rightarrow> response) \<Rightarrow> env" where
  "backend f =
     \<lparr>rest = f, token = (\<lambda>k. ''tok''), dial = (\<lambda>k url key val. (Some (Suc k), None)),
      ReadJSON = (\<lambda>k ws v. (v, Some ''websocket: close 1006'')), delay = (\<lambda>t a. 1000000000 * 2 ^ a),
      PostFromJson = decode, ACTION_POSTED = ''posted'', HEADER_AUTH = ''Authorization''\<rparr>"

definition backend_up :: env where
  "backend_up = backend (\<lambda>k. answers)"

definition backend_down :: env where
  "backend_down = backend (\<lambda>k req. (None, Some refused))"

text \<open>A backend that fails one request and answers every other.\<close>

definition backend_failing :: "request \<Rightarrow> env" where
  "backend_failing failed = backend (\<lambda>k req. if req = failed then (None, Some refused) else answers req)"

definition backend_flaky :: env where
  "backend_flaky = backend (\<lambda>k req. if k < 2 then (None, Some refused) else (None, Some rejected))"

text \<open>
  A backend whose stream delivers one posted frame and then drops: the first read succeeds,
  every later read fails and leaves the frame variable as it was.
\<close>

definition backend_dropping :: env where
  "backend_dropping =
     backend_up\<lparr>ReadJSON :=
       (\<lambda>k ws v. if k = 0 then (\<lparr>raw_Action = ''posted'', raw_Props = [''post'' \<mapsto> ''news'']\<rparr>, None)
                 else (v, Some ''websocket: close 1006''))\<rparr>"

definition backend_rejecting :: env where
  "backend_rejecting = backend (\<lambda>k req. (None, Some rejected))"

text \<open>The leading channel marker removed, as the specification words the join.\<close>

definition strip_leading_marker :: "string \<Rightarrow> string" where
  "strip_leading_marker name = (case name of c # cs \<Rightarrow> if c = CHR ''#'' then cs else name | [] \<Rightarrow> name)"

text \<open>The envelope the receiver builds around a posted frame with the given payload.\<close>

definition envelope :: "string \<Rightarrow> Message" where
  "envelope payload =
     \<lparr>msg_Raw = \<lparr>raw_Action = ''posted'', raw_Props = [''post'' \<mapsto> payload]\<rparr>,
      msg_Post = None, msg_Team = ''team'', msg_Channel = [], msg_Username = [], msg_Text = []\<rparr>"

section \<open>Basic facts\<close>

lemma count_events_simps:
  "count_events P [] = 0"
  "count_events P (e # es) = (if P e then Suc (count_events P es) else count_events P es)"
  "count_events P (xs @ ys) = count_events P xs + count_events P ys"
  by (simp_all add: count_events_def)

lemma rest_call_Some:
  "Client m = Some c \<Longrightarrow>
   rest_call env m tr req = (Inr (rest env (count_events is_Rest tr) req), tr @ [Rest req])"
  by (simp add: rest_call_def)

lemma rest_call_None: "Client m = None \<Longrightarrow> rest_call env m tr req = (Inl NilDereference, tr)"
  by (simp add: rest_call_def)

lemma session_simps:
  "Client session = Some \<lparr>client_Url = ''https://chat.example.org'', client_AuthToken = ''tok''\<rparr>"
  "User session = Some alice" "WsClient session = Some 0"
  "Channels session = Some \<lparr>cl_Channels = [town]\<rparr>"
  "MoreChannels session = Some \<lparr>cl_Channels = [offtopic]\<rparr>"
  "Users session = [''u1'' \<mapsto> alice]" "Credentials session = creds"
  by (simp_all add: session_def)

lemma backend_simps:
  "rest (backend f) = f" "PostFromJson (backend f) = decode" "ACTION_POSTED (backend f) = ''posted''"
  "HEADER_AUTH (backend f) = ''Authorization''" "token (backend f) k = ''tok''"
  "dial (backend f) k url key val = (Some (Suc k), None)"
  "ReadJSON (backend f) k ws v = (v, Some ''websocket: close 1006'')"
  "delay (backend f) t a = 1000000000 * 2 ^ a"
  by (simp_all add: backend_def)

subsection \<open>The refresh operations\<close>

lemma UpdateUsers_fetched:
  assumes "User m = Some u" and "Client m = Some c"
    and "rest env (count_events is_Rest tr) (Client_GetProfiles (user_TeamId u) '''') = (Some r, e)"
    and "res_Data r = DataUsers us"
  shows "UpdateUsers env m tr =
           (Inr None, m\<lparr>Users := us\<rparr>, tr @ [Rest (Client_GetProfiles (user_TeamId u) '''')])"
  using assms by (simp add: UpdateUsers_def rest_call_Some)

lemma UpdateChannels_fetched:
  assumes "Client m = Some c"
    and "rest env (count_events is_Rest tr) (Client_GetChannels '''') = (Some r1, e1)"
    and "res_Data r1 = DataChannelList cl"
    and "rest env (Suc (count_events is_Rest tr)) (Client_GetMoreChannels '''') = (Some r2, e2)"
    and "res_Data r2 = DataChannelList mcl"
  shows "UpdateChannels env m tr =
           (Inr None, m\<lparr>Channels := cl, MoreChannels := mcl\<rparr>,
            tr @ [Rest (Client_GetChannels ''''), Rest (Client_GetMoreChannels '''')])"
  using assms by (simp add: UpdateChannels_def rest_call_Some count_events_simps)

lemma UpdateUsers_error_nil: "fst (UpdateUsers env m tr) = Inr x \<Longrightarrow> x = None"
  by (auto simp: UpdateUsers_def split: option.splits prod.splits sum.splits data.splits)

lemma UpdateChannels_error_nil: "fst (UpdateChannels env m tr) = Inr x \<Longrightarrow> x = None"
  by (auto simp: UpdateChannels_def Let_def split: option.splits prod.splits sum.splits data.splits)

section \<open>The refresh operations and their error result (C10)\<close>

text \<open>
  C10 asks for a nil error on every backend outcome. When the backend answers a fetch with
  an error and no result (the pair \<open>(nil, err)\<close>), \<^verbatim>\<open>UpdateUsers\<close> and
  \<^verbatim>\<open>UpdateChannels\<close> do not return at all: the error is dropped unread and the nil
  result is dereferenced, a panic after the request was sent. The history calls look at the
  error first and return nil on the same answer.
\<close>

theorem refresh_panics_on_backend_error:
  "UpdateUsers backend_down session [] =
     (Inl NilDereference, session, [Rest (Client_GetProfiles ''t1'' '''')]) \<and>
   fst (UpdateUsers backend_down session []) \<noteq> Inr None \<and>
   UpdateChannels backend_down session [] =
     (Inl NilDereference, session, [Rest (Client_GetChannels '''')]) \<and>
   fst (UpdateChannels backend_down session []) \<noteq> Inr None \<and>
   GetPosts backend_down session [] ''c1'' 10 =
     (Inr None, session, [Rest (Client_GetPosts ''c1'' 0 10 [])])"
  by (simp add: UpdateUsers_def UpdateChannels_def GetPosts_def post_list_of_def
      rest_call_Some [OF session_simps(1)] session_simps backend_down_def backend_simps alice_def)

text \<open>
  Whenever a fetch yields a result of the asserted type, with or without an error beside
  it, the refresh stores the payload and returns a nil error; and no return of either
  operation carries a non-nil error.
\<close>

lemma refresh_error_result_is_nil:
  assumes "User m = Some u" and "Client m = Some c"
    and "rest env (count_events is_Rest tr) (Client_GetProfiles (user_TeamId u) '''') = (Some r, e)"
    and "res_Data r = DataUsers us"
    and "rest env (count_events is_Rest tr) (Client_GetChannels '''') = (Some r1, e1)"
    and "res_Data r1 = DataChannelList cl"
    and "rest env (Suc (count_events is_Rest tr)) (Client_GetMoreChannels '''') = (Some r2, e2)"
    and "res_Data r2 = DataChannelList mcl"
  shows "UpdateUsers env m tr =
           (Inr None, m\<lparr>Users := us\<rparr>, tr @ [Rest (Client_GetProfiles (user_TeamId u) '''')]) \<and>
         UpdateChannels env m tr =
           (Inr None, m\<lparr>Channels := cl, MoreChannels := mcl\<rparr>,
            tr @ [Rest (Client_GetChannels ''''), Rest (Client_GetMoreChannels '''')]) \<and>
         (\<forall>env' m' tr' x.
            fst (UpdateUsers env' m' tr') = Inr x \<or> fst (UpdateChannels env' m' tr') = Inr x
            \<longrightarrow> x = None)"
  using UpdateUsers_fetched [OF assms(1-4)] UpdateChannels_fetched [OF assms(2) assms(5-8)]
    UpdateUsers_error_nil UpdateChannels_error_nil by blast

text \<open>The same on the concrete session, against a backend that answers.\<close>

lemma refresh_error_result_is_nil_witness:
  "User session = Some alice \<and>
   rest backend_up 0 (Client_GetProfiles ''t1'' '''') =
     (Some \<lparr>res_Data = DataUsers [''u1'' \<mapsto> alice, ''u2'' \<mapsto> bob]\<rparr>, None) \<and>
   UpdateUsers backend_up session [] =
     (Inr None, session\<lparr>Users := [''u1'' \<mapsto> alice, ''u2'' \<mapsto> bob]\<rparr>,
      [Rest (Client_GetProfiles ''t1'' '''')]) \<and>
   UpdateChannels backend_up session [] =
     (Inr None,
      session\<lparr>Channels := Some \<lparr>cl_Channels = [town, direct]\<rparr>,
              MoreChannels := Some \<lparr>cl_Channels = [offtopic]\<rparr>\<rparr>,
      [Rest (Client_GetChannels ''''), Rest (Client_GetMoreChannels '''')])"
proof -
  have u: "User session = Some alice"
    by (simp add: session_simps)
  have c: "Client session = Some \<lparr>client_Url = ''https://chat.example.org'', client_AuthToken = ''tok''\<rparr>"
    by (simp add: session_simps)
  have p: "rest backend_up (count_events is_Rest []) (Client_GetProfiles (user_TeamId alice) '''') =
             (Some \<lparr>res_Data = DataUsers [''u1'' \<mapsto> alice, ''u2'' \<mapsto> bob]\<rparr>, None)"
    by (simp add: backend_up_def backend_simps answers_def)
  have g: "rest backend_up (count_events is_Rest []) (Client_GetChannels '''') =
             (Some \<lparr>res_Data = DataChannelList (Some \<lparr>cl_Channels = [town, direct]\<rparr>)\<rparr>, None)"
    by (simp add: backend_up_def backend_simps answers_def)
  have h: "rest backend_up (Suc (count_events is_Rest [])) (Client_GetMoreChannels '''') =
             (Some \<lparr>res_Data = DataChannelList (Some \<lparr>cl_Channels = [offtopic]\<rparr>)\<rparr>, None)"
    by (simp add: backend_up_def backend_simps answers_def)
  from refresh_error_result_is_nil [OF u c p _ g _ h]
  show ?thesis using u p by (simp add: alice_def count_events_simps)
qed

subsection \<open>The lookups\<close>

lemma name_of_id_None: "name_of_id cs ident = None \<longleftrightarrow> ident \<notin> chan_Id ` set cs"
  by (auto simp: name_of_id_def find_None_iff)

lemma header_of_id_None: "header_of_id cs ident = None \<longleftrightarrow> ident \<notin> chan_Id ` set cs"
  by (auto simp: header_of_id_def find_None_iff)

lemma id_of_name_None: "id_of_name cs name = None \<longleftrightarrow> name \<notin> chan_Name ` set cs"
  by (auto simp: id_of_name_def find_None_iff)

lemma all_channels_Some:
  "Channels m = Some a \<Longrightarrow> MoreChannels m = Some b \<Longrightarrow>
   all_channels m = Inr (cl_Channels a @ cl_Channels b)"
  by (simp add: all_channels_def)

lemma GetChannelName_hit:
  "all_channels m = Inr cs \<Longrightarrow> name_of_id cs ident = Some name \<Longrightarrow>
   GetChannelName env m tr ident = (Inr name, m, tr)"
  by (simp add: GetChannelName_def)

lemma GetChannelName_miss:
  "all_channels m = Inr cs \<Longrightarrow> name_of_id cs ident = None \<Longrightarrow>
   UpdateChannels env m tr = (Inr x, m1, tr1) \<Longrightarrow> all_channels m1 = Inr cs1 \<Longrightarrow>
   GetChannelName env m tr ident =
     (Inr (case name_of_id cs1 ident of Some name \<Rightarrow> name | None \<Rightarrow> ''''), m1, tr1)"
  by (simp add: GetChannelName_def split: option.splits)

section \<open>Channel name resolution (C4)\<close>

text \<open>
  C4: \<^verbatim>\<open>GetChannelName\<close> first scans the joined channels followed by the other
  channels. A hit returns the name and neither the caches nor the trace change. On a miss
  it refreshes the channel caches exactly once (one request for each cache) and scans
  the refreshed caches; an identifier still absent there gives the empty string, not a
  failure.
\<close>

theorem GetChannelName_refreshes_once:
  assumes "Channels m = Some a" and "MoreChannels m = Some b" and "Client m = Some c"
    and "rest env (count_events is_Rest tr) (Client_GetChannels '''') = (Some r1, e1)"
    and "res_Data r1 = DataChannelList (Some a')"
    and "rest env (Suc (count_events is_Rest tr)) (Client_GetMoreChannels '''') = (Some r2, e2)"
    and "res_Data r2 = DataChannelList (Some b')"
  shows "(\<forall>name. name_of_id (cl_Channels a @ cl_Channels b) ident = Some name \<longrightarrow>
            GetChannelName env m tr ident = (Inr name, m, tr)) \<and>
         (ident \<notin> chan_Id ` set (cl_Channels a @ cl_Channels b) \<longrightarrow>
            GetChannelName env m tr ident =
              (Inr (case name_of_id (cl_Channels a' @ cl_Channels b') ident of
                      Some name \<Rightarrow> name | None \<Rightarrow> ''''),
               m\<lparr>Channels := Some a', MoreChannels := Some b'\<rparr>,
               tr @ [Rest (Client_GetChannels ''''), Rest (Client_GetMoreChannels '''')])) \<and>
         (ident \<notin> chan_Id ` set (cl_Channels a @ cl_Channels b) \<longrightarrow>
          ident \<notin> chan_Id ` set (cl_Channels a' @ cl_Channels b') \<longrightarrow>
            fst (GetChannelName env m tr ident) = Inr '''')"
proof (intro conjI allI impI)
  note ac = all_channels_Some [OF assms(1,2)]
  note up = UpdateChannels_fetched [OF assms(3-7)]
  have ac': "all_channels (m\<lparr>Channels := Some a', MoreChannels := Some b'\<rparr>) =
               Inr (cl_Channels a' @ cl_Channels b')"
    by (simp add: all_channels_def)
  have miss: "GetChannelName env m tr ident =
                (Inr (case name_of_id (cl_Channels a' @ cl_Channels b') ident of
                        Some name \<Rightarrow> name | None \<Rightarrow> []),
                 m\<lparr>Channels := Some a', MoreChannels := Some b'\<rparr>,
                 tr @ [Rest (Client_GetChannels []), Rest (Client_GetMoreChannels [])])"
    if "ident \<notin> chan_Id ` set (cl_Channels a @ cl_Channels b)"
  proof -
    from that have "name_of_id (cl_Channels a @ cl_Channels b) ident = None"
      by (simp add: name_of_id_None)
    then show ?thesis
      by (rule GetChannelName_miss [OF ac _ up ac'])
  qed
  {
    fix name
    assume "name_of_id (cl_Channels a @ cl_Channels b) ident = Some name"
    then show "GetChannelName env m tr ident = (Inr name, m, tr)"
      by (rule GetChannelName_hit [OF ac])
  next
    assume "ident \<notin> chan_Id ` set (cl_Channels a @ cl_Channels b)"
    then show "GetChannelName env m tr ident =
                (Inr (case name_of_id (cl_Channels a' @ cl_Channels b') ident of
                        Some name \<Rightarrow> name | None \<Rightarrow> []),
                 m\<lparr>Channels := Some a', MoreChannels := Some b'\<rparr>,
                 tr @ [Rest (Client_GetChannels []), Rest (Client_GetMoreChannels [])])"
      by (rule miss)
  next
    assume absent: "ident \<notin> chan_Id ` set (cl_Channels a @ cl_Channels b)"
      and "ident \<notin> chan_Id ` set (cl_Channels a' @ cl_Channels b')"
    then have "name_of_id (cl_Channels a' @ cl_Channels b') ident = None"
      by (simp add: name_of_id_None)
    with miss [OF absent] show "fst (GetChannelName env m tr ident) = Inr []"
      by simp
  }
qed

text \<open>
  C4 on the concrete session: \<open>c9\<close> is unknown before and after the refresh, \<open>c3\<close> is
  found by the refresh, \<open>c1\<close> is cached.
\<close>

theorem GetChannelName_refreshes_once_witness:
  "''c9'' \<notin> chan_Id ` set [town, offtopic] \<and> ''c9'' \<notin> chan_Id ` set [town, direct, offtopic] \<and>
   GetChannelName backend_up session [] ''c9'' =
     (Inr '''',
      session\<lparr>Channels := Some \<lparr>cl_Channels = [town, direct]\<rparr>,
              MoreChannels := Some \<lparr>cl_Channels = [offtopic]\<rparr>\<rparr>,
      [Rest (Client_GetChannels ''''), Rest (Client_GetMoreChannels '''')]) \<and>
   GetChannelName backend_up session [] ''c3'' =
     (Inr ''u1__u2'',
      session\<lparr>Channels := Some \<lparr>cl_Channels = [town, direct]\<rparr>,
              MoreChannels := Some \<lparr>cl_Channels = [offtopic]\<rparr>\<rparr>,
      [Rest (Client_GetChannels ''''), Rest (Client_GetMoreChannels '''')]) \<and>
   GetChannelName backend_up session [] ''c1'' = (Inr ''town'', session, [])"
proof -
  have g: "rest backend_up (count_events is_Rest []) (Client_GetChannels '''') =
             (Some \<lparr>res_Data = DataChannelList (Some \<lparr>cl_Channels = [town, direct]\<rparr>)\<rparr>, None)"
    by (simp add: backend_up_def backend_simps answers_def)
  have h: "rest backend_up (Suc (count_events is_Rest [])) (Client_GetMoreChannels '''') =
             (Some \<lparr>res_Data = DataChannelList (Some \<lparr>cl_Channels = [offtopic]\<rparr>)\<rparr>, None)"
    by (simp add: backend_up_def backend_simps answers_def)
  have d: "res_Data \<lparr>res_Data = DataChannelList (Some \<lparr>cl_Channels = [town, direct]\<rparr>)\<rparr> =
             DataChannelList (Some \<lparr>cl_Channels = [town, direct]\<rparr>)"
          "res_Data \<lparr>res_Data = DataChannelList (Some \<lparr>cl_Channels = [offtopic]\<rparr>)\<rparr> =
             DataChannelList (Some \<lparr>cl_Channels = [offtopic]\<rparr>)"
    by simp_all
  note t = GetChannelName_refreshes_once
             [OF session_simps(4) session_simps(5) session_simps(1) g d(1) h d(2)]
  have old: "cl_Channels \<lparr>cl_Channels = [town]\<rparr> @ cl_Channels \<lparr>cl_Channels = [offtopic]\<rparr> =
               [town, offtopic]"
    and new: "cl_Channels \<lparr>cl_Channels = [town, direct]\<rparr> @ cl_Channels \<lparr>cl_Channels = [offtopic]\<rparr> =
               [town, direct, offtopic]"
    by simp_all
  have n9: "''c9'' \<notin> chan_Id ` set [town, offtopic]"
    and n3: "''c3'' \<notin> chan_Id ` set [town, offtopic]"
    and m9: "''c9'' \<notin> chan_Id ` set [town, direct, offtopic]"
    by (simp_all add: town_def offtopic_def direct_def)
  have f1: "name_of_id [town, offtopic] ''c1'' = Some ''town''"
    and a9: "name_of_id [town, direct, offtopic] ''c9'' = None"
    and a3: "name_of_id [town, direct, offtopic] ''c3'' = Some ''u1__u2''"
    by (simp_all add: town_def offtopic_def direct_def name_of_id_def)
  have r9: "GetChannelName backend_up session [] ''c9'' =
     (Inr '''',
      session\<lparr>Channels := Some \<lparr>cl_Channels = [town, direct]\<rparr>,
              MoreChannels := Some \<lparr>cl_Channels = [offtopic]\<rparr>\<rparr>,
      [Rest (Client_GetChannels ''''), Rest (Client_GetMoreChannels '''')])"
    using t [of "''c9''"] n9 a9 unfolding old new by simp
  have r3: "GetChannelName backend_up session [] ''c3'' =
     (Inr ''u1__u2'',
      session\<lparr>Channels := Some \<lparr>cl_Channels = [town, direct]\<rparr>,
              MoreChannels := Some \<lparr>cl_Channels = [offtopic]\<rparr>\<rparr>,
      [Rest (Client_GetChannels ''''), Rest (Client_GetMoreChannels '''')])"
    using t [of "''c3''"] n3 a3 unfolding old new by simp
  have r1: "GetChannelName backend_up session [] ''c1'' = (Inr ''town'', session, [])"
    using t [of "''c1''"] f1 unfolding old new by simp
  show ?thesis
    by (intro conjI n9 m9 r9 r3 r1)
qed

lemma UpdateChannels_starts_one_fetch:
  "Client m = Some c \<Longrightarrow>
   count_events is_GetChannels (snd (snd (UpdateChannels env m tr))) =
     Suc (count_events is_GetChannels tr)"
  by (auto simp: UpdateChannels_def rest_call_def Let_def count_events_simps
      split: option.splits data.splits prod.splits sum.splits)

lemma GetChannelName_miss_trace:
  "all_channels m = Inr cs \<Longrightarrow> name_of_id cs ident = None \<Longrightarrow>
   snd (snd (GetChannelName env m tr ident)) = snd (snd (UpdateChannels env m tr))"
  by (auto simp: GetChannelName_def split: option.splits sum.splits prod.splits)

lemma GetChannelId_pure: "snd (GetChannelId m tr name) = (m, tr)"
  by (simp add: GetChannelId_def split: sum.splits option.splits)

lemma GetChannelHeader_pure: "snd (GetChannelHeader m tr ident) = (m, tr)"
  by (simp add: GetChannelHeader_def split: sum.splits option.splits)

section \<open>Which lookups refresh (C5)\<close>

text \<open>
  C5, as stated, fails for the header lookup: for an identifier missing from both caches
  \<^verbatim>\<open>GetChannelHeader\<close> returns the empty string with the caches and the trace
  untouched (no refresh was attempted), although a refresh would have brought the channel
  and its header.
\<close>

theorem GetChannelHeader_does_not_refresh:
  "''c3'' \<notin> chan_Id ` set [town, offtopic] \<and>
   GetChannelHeader session [] ''c3'' = (Inr '''', session, []) \<and>
   fst (GetChannelHeader
          (session\<lparr>Channels := Some \<lparr>cl_Channels = [town, direct]\<rparr>,
                   MoreChannels := Some \<lparr>cl_Channels = [offtopic]\<rparr>\<rparr>) [] ''c3'') = Inr ''private''"
  by (simp add: GetChannelHeader_def all_channels_def header_of_id_def session_simps
      town_def offtopic_def direct_def)

text \<open>
  C5, amended: only the name lookup by identifier refreshes on a miss. On a hit it returns
  the cached name and changes nothing. On a miss it starts exactly one refresh, whatever
  the backend answers, and when the refresh brings both channel lists it scans them again:
  the result is the name found there, or the empty string, the caches are the fetched
  lists and one request for each cache was sent. The header lookup by identifier and the
  identifier lookup by name scan the cached lists and nothing else: they never change the
  caches or send a request, and give the empty string on a miss.
\<close>

theorem lookups_refresh_policy:
  assumes "Channels m = Some a" and "MoreChannels m = Some b" and "Client m = Some c"
  shows "(\<forall>found. name_of_id (cl_Channels a @ cl_Channels b) ident = Some found \<longrightarrow>
            GetChannelName env m tr ident = (Inr found, m, tr)) \<and>
         (ident \<in> chan_Id ` set (cl_Channels a @ cl_Channels b) \<longrightarrow>
            snd (GetChannelName env m tr ident) = (m, tr)) \<and>
         (ident \<notin> chan_Id ` set (cl_Channels a @ cl_Channels b) \<longrightarrow>
            count_events is_GetChannels (snd (snd (GetChannelName env m tr ident))) =
              Suc (count_events is_GetChannels tr)) \<and>
         (\<forall>r1 e1 a' r2 e2 b'.
            ident \<notin> chan_Id ` set (cl_Channels a @ cl_Channels b) \<longrightarrow>
            rest env (count_events is_Rest tr) (Client_GetChannels '''') = (Some r1, e1) \<longrightarrow>
            res_Data r1 = DataChannelList (Some a') \<longrightarrow>
            rest env (Suc (count_events is_Rest tr)) (Client_GetMoreChannels '''') = (Some r2, e2) \<longrightarrow>
            res_Data r2 = DataChannelList (Some b') \<longrightarrow>
              GetChannelName env m tr ident =
                (Inr (case name_of_id (cl_Channels a' @ cl_Channels b') ident of
                        Some found \<Rightarrow> found | None \<Rightarrow> ''''),
                 m\<lparr>Channels := Some a', MoreChannels := Some b'\<rparr>,
                 tr @ [Rest (Client_GetChannels ''''), Rest (Client_GetMoreChannels '''')])) \<and>
         GetChannelHeader m tr ident =
           (Inr (case header_of_id (cl_Channels a @ cl_Channels b) ident of
                   Some header \<Rightarrow> header | None \<Rightarrow> ''''), m, tr) \<and>
         (ident \<notin> chan_Id ` set (cl_Channels a @ cl_Channels b) \<longrightarrow>
            GetChannelHeader m tr ident = (Inr '''', m, tr)) \<and>
         GetChannelId m tr name =
           (Inr (case id_of_name (cl_Channels a @ cl_Channels b) name of
                   Some i \<Rightarrow> i | None \<Rightarrow> ''''), m, tr) \<and>
         (name \<notin> chan_Name ` set (cl_Channels a @ cl_Channels b) \<longrightarrow>
            GetChannelId m tr name = (Inr '''', m, tr))"
proof (intro conjI impI allI)
  note ac = all_channels_Some [OF assms(1,2)]
  {
    fix found
    assume "name_of_id (cl_Channels a @ cl_Channels b) ident = Some found"
    then show "GetChannelName env m tr ident = (Inr found, m, tr)"
      by (rule GetChannelName_hit [OF ac])
  next
    assume "ident \<in> chan_Id ` set (cl_Channels a @ cl_Channels b)"
    then have "name_of_id (cl_Channels a @ cl_Channels b) ident \<noteq> None"
      by (simp add: name_of_id_None)
    then obtain n where "name_of_id (cl_Channels a @ cl_Channels b) ident = Some n"
      by auto
    from GetChannelName_hit [OF ac this]
    show "snd (GetChannelName env m tr ident) = (m, tr)"
      by simp
  next
    assume "ident \<notin> chan_Id ` set (cl_Channels a @ cl_Channels b)"
    then have "name_of_id (cl_Channels a @ cl_Channels b) ident = None"
      by (simp add: name_of_id_None)
    from GetChannelName_miss_trace [OF ac this]
    show "count_events is_GetChannels (snd (snd (GetChannelName env m tr ident))) =
            Suc (count_events is_GetChannels tr)"
      by (simp add: UpdateChannels_starts_one_fetch [OF assms(3)])
  next
    fix r1 e1 a' r2 e2 b'
    assume missing: "ident \<notin> chan_Id ` set (cl_Channels a @ cl_Channels b)"
      and first: "rest env (count_events is_Rest tr) (Client_GetChannels '''') = (Some r1, e1)"
        "res_Data r1 = DataChannelList (Some a')"
      and second: "rest env (Suc (count_events is_Rest tr)) (Client_GetMoreChannels '''') = (Some r2, e2)"
        "res_Data r2 = DataChannelList (Some b')"
    from missing have none: "name_of_id (cl_Channels a @ cl_Channels b) ident = None"
      by (simp add: name_of_id_None)
    have ac': "all_channels (m\<lparr>Channels := Some a', MoreChannels := Some b'\<rparr>) =
                 Inr (cl_Channels a' @ cl_Channels b')"
      by (simp add: all_channels_def)
    show "GetChannelName env m tr ident =
            (Inr (case name_of_id (cl_Channels a' @ cl_Channels b') ident of
                    Some found \<Rightarrow> found | None \<Rightarrow> ''''),
             m\<lparr>Channels := Some a', MoreChannels := Some b'\<rparr>,
             tr @ [Rest (Client_GetChannels ''''), Rest (Client_GetMoreChannels '''')])"
      by (rule GetChannelName_miss
                 [OF ac none UpdateChannels_fetched [OF assms(3) first second] ac'])
  next
    show "GetChannelHeader m tr ident =
           (Inr (case header_of_id (cl_Channels a @ cl_Channels b) ident of
                   Some header \<Rightarrow> header | None \<Rightarrow> ''''), m, tr)"
      by (simp add: GetChannelHeader_def ac split: option.splits)
  next
    assume "ident \<notin> chan_Id ` set (cl_Channels a @ cl_Channels b)"
    then have "header_of_id (cl_Channels a @ cl_Channels b) ident = None"
      by (simp add: header_of_id_None)
    then show "GetChannelHeader m tr ident = (Inr '''', m, tr)"
      by (simp add: GetChannelHeader_def ac)
  next
    show "GetChannelId m tr name =
           (Inr (case id_of_name (cl_Channels a @ cl_Channels b) name of
                   Some i \<Rightarrow> i | None \<Rightarrow> ''''), m, tr)"
      by (simp add: GetChannelId_def ac split: option.splits)
  next
    assume "name \<notin> chan_Name ` set (cl_Channels a @ cl_Channels b)"
    then have "id_of_name (cl_Channels a @ cl_Channels b) name = None"
      by (simp add: id_of_name_None)
    then show "GetChannelId m tr name = (Inr '''', m, tr)"
      by (simp add: GetChannelId_def ac)
  }
qed

text \<open>
  The amended C5 on the concrete session. Against the backend that answers, the name
  lookup of \<open>c3\<close>, which is not cached, refreshes and finds the name in the second scan,
  and that of \<open>c9\<close>, which the backend does not know either, refreshes and gives the empty
  string; the lookup of the cached \<open>c1\<close> changes nothing. Against the backend that is
  down, the lookup of \<open>c3\<close> still starts its one refresh. The header lookup of \<open>c3\<close> and
  the identifier lookup of an unknown name give the empty string and change nothing.
\<close>

theorem lookups_refresh_policy_witness:
  "''c3'' \<notin> chan_Id ` set [town, offtopic] \<and> ''c9'' \<notin> chan_Id ` set [town, offtopic] \<and>
   ''c1'' \<in> chan_Id ` set [town, offtopic] \<and> ''nowhere'' \<notin> chan_Name ` set [town, offtopic] \<and>
   GetChannelName backend_up session [] ''c3'' =
     (Inr ''u1__u2'',
      session\<lparr>Channels := Some \<lparr>cl_Channels = [town, direct]\<rparr>,
              MoreChannels := Some \<lparr>cl_Channels = [offtopic]\<rparr>\<rparr>,
      [Rest (Client_GetChannels ''''), Rest (Client_GetMoreChannels '''')]) \<and>
   GetChannelName backend_up session [] ''c9'' =
     (Inr '''',
      session\<lparr>Channels := Some \<lparr>cl_Channels = [town, direct]\<rparr>,
              MoreChannels := Some \<lparr>cl_Channels = [offtopic]\<rparr>\<rparr>,
      [Rest (Client_GetChannels ''''), Rest (Client_GetMoreChannels '''')]) \<and>
   GetChannelName backend_up session [] ''c1'' = (Inr ''town'', session, []) \<and>
   count_events is_GetChannels (snd (snd (GetChannelName backend_down session [] ''c3''))) = 1 \<and>
   snd (GetChannelName backend_down session [] ''c1'') = (session, []) \<and>
   GetChannelHeader session [] ''c3'' = (Inr '''', session, []) \<and>
   GetChannelHeader session [] ''c1'' = (Inr ''welcome'', session, []) \<and>
   GetChannelId session [] ''nowhere'' = (Inr '''', session, []) \<and>
   GetChannelId session [] ''town'' = (Inr ''c1'', session, [])"
proof -
  have old: "cl_Channels \<lparr>cl_Channels = [town]\<rparr> @ cl_Channels \<lparr>cl_Channels = [offtopic]\<rparr> =
               [town, offtopic]"
    and new: "cl_Channels \<lparr>cl_Channels = [town, direct]\<rparr> @ cl_Channels \<lparr>cl_Channels = [offtopic]\<rparr> =
               [town, direct, offtopic]"
    by simp_all
  have n3: "''c3'' \<notin> chan_Id ` set [town, offtopic]"
    and n9: "''c9'' \<notin> chan_Id ` set [town, offtopic]"
    and i1: "''c1'' \<in> chan_Id ` set [town, offtopic]"
    and nn: "''nowhere'' \<notin> chan_Name ` set [town, offtopic]"
    by (simp_all add: town_def offtopic_def)
  have f1: "name_of_id [town, offtopic] ''c1'' = Some ''town''"
    and a9: "name_of_id [town, direct, offtopic] ''c9'' = None"
    and a3: "name_of_id [town, direct, offtopic] ''c3'' = Some ''u1__u2''"
    and h1: "header_of_id [town, offtopic] ''c1'' = Some ''welcome''"
    and it: "id_of_name [town, offtopic] ''town'' = Some ''c1''"
    by (simp_all add: town_def offtopic_def direct_def name_of_id_def header_of_id_def
        id_of_name_def)
  have g: "rest backend_up (count_events is_Rest []) (Client_GetChannels '''') =
             (Some \<lparr>res_Data = DataChannelList (Some \<lparr>cl_Channels = [town, direct]\<rparr>)\<rparr>, None)"
    and h: "rest backend_up (Suc (count_events is_Rest [])) (Client_GetMoreChannels '''') =
             (Some \<lparr>res_Data = DataChannelList (Some \<lparr>cl_Channels = [offtopic]\<rparr>)\<rparr>, None)"
    by (simp_all add: backend_up_def backend_simps answers_def)
  have d: "res_Data \<lparr>res_Data = DataChannelList (Some \<lparr>cl_Channels = [town, direct]\<rparr>)\<rparr> =
             DataChannelList (Some \<lparr>cl_Channels = [town, direct]\<rparr>)"
          "res_Data \<lparr>res_Data = DataChannelList (Some \<lparr>cl_Channels = [offtopic]\<rparr>)\<rparr> =
             DataChannelList (Some \<lparr>cl_Channels = [offtopic]\<rparr>)"
    by simp_all
  note t = lookups_refresh_policy [OF session_simps(4) session_simps(5) session_simps(1),
             unfolded old]
  note retry = t [of _ backend_up "[]", THEN conjunct2, THEN conjunct2, THEN conjunct2,
                  THEN conjunct1, rule_format, OF _ g d(1) h d(2), unfolded new]
  have up3: "GetChannelName backend_up session [] ''c3'' =
     (Inr ''u1__u2'',
      session\<lparr>Channels := Some \<lparr>cl_Channels = [town, direct]\<rparr>,
              MoreChannels := Some \<lparr>cl_Channels = [offtopic]\<rparr>\<rparr>,
      [Rest (Client_GetChannels ''''), Rest (Client_GetMoreChannels '''')])"
    using retry [OF n3] by (simp add: a3)
  have up9: "GetChannelName backend_up session [] ''c9'' =
     (Inr '''',
      session\<lparr>Channels := Some \<lparr>cl_Channels = [town, direct]\<rparr>,
              MoreChannels := Some \<lparr>cl_Channels = [offtopic]\<rparr>\<rparr>,
      [Rest (Client_GetChannels ''''), Rest (Client_GetMoreChannels '''')])"
    using retry [OF n9] by (simp add: a9)
  have up1: "GetChannelName backend_up session [] ''c1'' = (Inr ''town'', session, [])"
    by (rule t [of "''c1''" backend_up "[]", THEN conjunct1, rule_format, OF f1])
  have r3: "count_events is_GetChannels (snd (snd (GetChannelName backend_down session [] ''c3''))) = 1"
    using t [of "''c3''" backend_down "[]", THEN conjunct2, THEN conjunct2, THEN conjunct1,
             THEN mp, OF n3]
    by (simp add: count_events_simps)
  have r1: "snd (GetChannelName backend_down session [] ''c1'') = (session, [])"
    by (rule t [of "''c1''" backend_down "[]", THEN conjunct2, THEN conjunct1, THEN mp, OF i1])
  have h3: "GetChannelHeader session [] ''c3'' = (Inr '''', session, [])"
    by (rule t [of "''c3''" backend_down "[]", THEN conjunct2, THEN conjunct2, THEN conjunct2,
          THEN conjunct2, THEN conjunct2, THEN conjunct1, THEN mp, OF n3])
  have hh: "GetChannelHeader session [] ''c1'' = (Inr ''welcome'', session, [])"
    using t [of "''c1''" backend_down "[]", THEN conjunct2, THEN conjunct2, THEN conjunct2,
          THEN conjunct2, THEN conjunct1]
    by (simp add: h1)
  have gn: "GetChannelId session [] ''nowhere'' = (Inr '''', session, [])"
    by (rule t [of "''c3''" backend_down "[]" "''nowhere''", THEN conjunct2, THEN conjunct2,
          THEN conjunct2, THEN conjunct2, THEN conjunct2, THEN conjunct2, THEN conjunct2,
          THEN mp, OF nn])
  have gt: "GetChannelId session [] ''town'' = (Inr ''c1'', session, [])"
    using t [of "''c3''" backend_down "[]" "''town''", THEN conjunct2, THEN conjunct2,
          THEN conjunct2, THEN conjunct2, THEN conjunct2, THEN conjunct2, THEN conjunct1]
    by (simp add: it)
  show ?thesis
    by (intro conjI n3 n9 i1 nn up3 up9 up1 r3 r1 h3 hh gn gt)
qed

subsection \<open>Removing the first marker\<close>

lemma Index_char_absent: "c \<notin> set s \<Longrightarrow> Index s [c] = None"
  by (induction s) auto

lemma Index_char_first: "c \<notin> set pre \<Longrightarrow> Index (pre @ c # post) [c] = Some (length pre)"
  by (induction pre) auto

lemma Replace_no_marker: "c \<notin> set s \<Longrightarrow> Replace s [c] [] (Suc 0) = s"
  by (simp add: Index_char_absent)

lemma Replace_first_marker:
  "c \<notin> set pre \<Longrightarrow> Replace (pre @ c # post) [c] [] (Suc 0) = pre @ post"
  by (simp add: Index_char_first)

subsection \<open>The command surface\<close>

lemma GetChannelId_scan:
  "Channels m = Some a \<Longrightarrow> MoreChannels m = Some b \<Longrightarrow>
   GetChannelId m tr name =
     (Inr (case id_of_name (cl_Channels a @ cl_Channels b) name of Some i \<Rightarrow> i | None \<Rightarrow> ''''), m, tr)"
  by (simp add: GetChannelId_def all_channels_Some split: option.splits)

lemma post_list_of_error:
  "post_list_of m (Inr (res, Some e), tr) = (Inr None, m, tr)"
  by (simp add: post_list_of_def)

section \<open>Joining a channel (C7)\<close>

text \<open>
  C7, as stated, fails: the marker is removed wherever it first occurs, not only in front.
  The name \<open>a#b\<close> has no leading marker and names no cached channel, yet the join request
  is sent (for the channel named \<open>ab\<close>) and the join succeeds.
\<close>

theorem JoinChannel_removes_inner_marker:
  "strip_leading_marker ''a#b'' = ''a#b'' \<and>
   ''a#b'' \<notin> chan_Name ` set [town, offtopic] \<and>
   JoinChannel backend_up session [] ''a#b'' = (Inr None, session, [Rest (Client_JoinChannel ''c2'')])"
  by (simp add: strip_leading_marker_def town_def offtopic_def JoinChannel_def
      GetChannelId_scan [OF session_simps(4) session_simps(5)] id_of_name_def
      rest_call_Some [OF session_simps(1)] backend_up_def backend_simps answers_def)

text \<open>
  C7, amended: \<^verbatim>\<open>JoinChannel\<close> removes the first occurrence of the marker, wherever it
  is (so a leading one is stripped), and resolves what remains. When that resolves to the
  empty identifier, because no cached channel has the name or the one that has it carries an
  empty identifier, the result is the error \<open>failed to join\<close> and nothing is sent.
  Otherwise one join request is sent, and the result is the same error when the backend
  reports an error and nil when it does not.
\<close>

theorem JoinChannel_outcomes:
  assumes "Channels m = Some a" and "MoreChannels m = Some b" and "Client m = Some c"
  shows "(\<forall>rest. channel = CHR ''#'' # rest \<longrightarrow> Replace channel ''#'' '''' (Suc 0) = rest) \<and>
         (\<forall>pre post. channel = pre @ CHR ''#'' # post \<longrightarrow> CHR ''#'' \<notin> set pre \<longrightarrow>
            Replace channel ''#'' '''' (Suc 0) = pre @ post) \<and>
         (CHR ''#'' \<notin> set channel \<longrightarrow> Replace channel ''#'' '''' (Suc 0) = channel) \<and>
         (Replace channel ''#'' '''' (Suc 0) \<notin> chan_Name ` set (cl_Channels a @ cl_Channels b) \<longrightarrow>
            JoinChannel env m tr channel = (Inr (Some ''failed to join''), m, tr)) \<and>
         (id_of_name (cl_Channels a @ cl_Channels b) (Replace channel ''#'' '''' (Suc 0)) = Some '''' \<longrightarrow>
            JoinChannel env m tr channel = (Inr (Some ''failed to join''), m, tr)) \<and>
         (\<forall>i. id_of_name (cl_Channels a @ cl_Channels b) (Replace channel ''#'' '''' (Suc 0)) = Some i \<longrightarrow>
              i \<noteq> '''' \<longrightarrow>
              JoinChannel env m tr channel =
                (Inr (case snd (rest env (count_events is_Rest tr) (Client_JoinChannel i)) of
                        Some e \<Rightarrow> Some ''failed to join'' | None \<Rightarrow> None),
                 m, tr @ [Rest (Client_JoinChannel i)]))"
proof (intro conjI allI impI)
  note gi = GetChannelId_scan [OF assms(1,2)]
  {
    fix rest
    assume "channel = CHR ''#'' # rest"
    then show "Replace channel ''#'' '''' (Suc 0) = rest"
      by simp
  next
    fix pre post
    assume "channel = pre @ CHR ''#'' # post" and "CHR ''#'' \<notin> set pre"
    then show "Replace channel ''#'' '''' (Suc 0) = pre @ post"
      using Replace_first_marker [of "CHR ''#''" pre post] by simp
  next
    assume "CHR ''#'' \<notin> set channel"
    then show "Replace channel ''#'' '''' (Suc 0) = channel"
      by (rule Replace_no_marker)
  next
    assume "Replace channel ''#'' '''' (Suc 0) \<notin> chan_Name ` set (cl_Channels a @ cl_Channels b)"
    then have "id_of_name (cl_Channels a @ cl_Channels b) (Replace channel ''#'' '''' (Suc 0)) = None"
      by (simp add: id_of_name_None)
    then show "JoinChannel env m tr channel = (Inr (Some ''failed to join''), m, tr)"
      by (simp add: JoinChannel_def gi)
  next
    assume "id_of_name (cl_Channels a @ cl_Channels b) (Replace channel ''#'' '''' (Suc 0)) = Some ''''"
    then show "JoinChannel env m tr channel = (Inr (Some ''failed to join''), m, tr)"
      by (simp add: JoinChannel_def gi)
  next
    fix i
    assume "id_of_name (cl_Channels a @ cl_Channels b) (Replace channel ''#'' '''' (Suc 0)) = Some i"
      and "i \<noteq> ''''"
    then show "JoinChannel env m tr channel =
                (Inr (case snd (rest env (count_events is_Rest tr) (Client_JoinChannel i)) of
                        Some e \<Rightarrow> Some ''failed to join'' | None \<Rightarrow> None),
                 m, tr @ [Rest (Client_JoinChannel i)])"
      by (simp add: JoinChannel_def gi rest_call_Some [OF assms(3)] split: prod.splits option.splits)
  }
qed

text \<open>
  The amended C7 on the concrete session: a marked name of a cached channel is joined, the
  same name fails when the backend is down, and an unknown name fails without a request.
\<close>

theorem JoinChannel_outcomes_witness:
  "Replace ''#town'' ''#'' '''' (Suc 0) = ''town'' \<and>
   ''nowhere'' \<notin> chan_Name ` set [town, offtopic] \<and>
   id_of_name [town, offtopic] ''town'' = Some ''c1'' \<and>
   JoinChannel backend_up session [] ''#town'' = (Inr None, session, [Rest (Client_JoinChannel ''c1'')]) \<and>
   JoinChannel backend_down session [] ''#town'' =
     (Inr (Some ''failed to join''), session, [Rest (Client_JoinChannel ''c1'')]) \<and>
   JoinChannel backend_up session [] ''#nowhere'' = (Inr (Some ''failed to join''), session, [])"
proof -
  have old: "cl_Channels \<lparr>cl_Channels = [town]\<rparr> @ cl_Channels \<lparr>cl_Channels = [offtopic]\<rparr> =
               [town, offtopic]"
    by simp
  note t = JoinChannel_outcomes [OF session_simps(4) session_simps(5) session_simps(1),
             unfolded old]
  have s1: "Replace ''#town'' ''#'' '''' (Suc 0) = ''town''"
    using t [of "''#town''", THEN conjunct1] by simp
  have s2: "Replace ''#nowhere'' ''#'' '''' (Suc 0) = ''nowhere''"
    using t [of "''#nowhere''", THEN conjunct1] by simp
  have nn: "''nowhere'' \<notin> chan_Name ` set [town, offtopic]"
    by (simp add: town_def offtopic_def)
  have it: "id_of_name [town, offtopic] ''town'' = Some ''c1''"
    by (simp add: id_of_name_def town_def offtopic_def)
  have up: "snd (rest backend_up (count_events is_Rest []) (Client_JoinChannel ''c1'')) = None"
    by (simp add: backend_up_def backend_simps answers_def)
  have down: "snd (rest backend_down (count_events is_Rest []) (Client_JoinChannel ''c1'')) = Some refused"
    by (simp add: backend_down_def backend_simps)
  have j1: "JoinChannel backend_up session [] ''#town'' =
              (Inr None, session, [Rest (Client_JoinChannel ''c1'')])"
    using t [of "''#town''" backend_up "[]", THEN conjunct2, THEN conjunct2, THEN conjunct2,
             THEN conjunct2, THEN conjunct2, THEN spec, of "''c1''"]
    by (simp add: s1 it up)
  have j2: "JoinChannel backend_down session [] ''#town'' =
              (Inr (Some ''failed to join''), session, [Rest (Client_JoinChannel ''c1'')])"
    using t [of "''#town''" backend_down "[]", THEN conjunct2, THEN conjunct2, THEN conjunct2,
             THEN conjunct2, THEN conjunct2, THEN spec, of "''c1''"]
    by (simp add: s1 it down)
  have j3: "JoinChannel backend_up session [] ''#nowhere'' = (Inr (Some ''failed to join''), session, [])"
    using t [of "''#nowhere''" backend_up "[]", THEN conjunct2, THEN conjunct2, THEN conjunct2,
             THEN conjunct1] nn
    by (simp add: s2)
  show ?thesis
    by (intro conjI s1 nn it j1 j2 j3)
qed

section \<open>Posting a message (C9)\<close>

text \<open>
  C9: \<^verbatim>\<open>PostMessage\<close> resolves the channel name in the two caches and sends the post
  whatever the outcome of the resolution and whatever the backend answers; a name that
  no cached channel has is sent with the empty channel identifier.
\<close>

theorem PostMessage_always_submits:
  assumes "Channels m = Some a" and "MoreChannels m = Some b" and "Client m = Some c"
  shows "PostMessage env m tr channel text =
           (Inr (), m,
            tr @ [Rest (Client_CreatePost
                          \<lparr>post_UserId = '''',
                           post_ChannelId =
                             (case id_of_name (cl_Channels a @ cl_Channels b) channel of
                                Some i \<Rightarrow> i | None \<Rightarrow> ''''),
                           post_Message = text\<rparr>)]) \<and>
         (channel \<notin> chan_Name ` set (cl_Channels a @ cl_Channels b) \<longrightarrow>
            PostMessage env m tr channel text =
              (Inr (), m,
               tr @ [Rest (Client_CreatePost
                             \<lparr>post_UserId = '''', post_ChannelId = '''', post_Message = text\<rparr>)]))"
proof (intro conjI impI)
  show sent: "PostMessage env m tr channel text =
           (Inr (), m,
            tr @ [Rest (Client_CreatePost
                          \<lparr>post_UserId = '''',
                           post_ChannelId =
                             (case id_of_name (cl_Channels a @ cl_Channels b) channel of
                                Some i \<Rightarrow> i | None \<Rightarrow> ''''),
                           post_Message = text\<rparr>)])"
    by (simp add: PostMessage_def GetChannelId_scan [OF assms(1,2)] rest_call_Some [OF assms(3)])
  assume "channel \<notin> chan_Name ` set (cl_Channels a @ cl_Channels b)"
  then have "id_of_name (cl_Channels a @ cl_Channels b) channel = None"
    by (simp add: id_of_name_None)
  with sent show "PostMessage env m tr channel text =
              (Inr (), m,
               tr @ [Rest (Client_CreatePost
                             \<lparr>post_UserId = '''', post_ChannelId = '''', post_Message = text\<rparr>)])"
    by simp
qed

text \<open>C9 on the concrete session: a post to an unknown channel, the backend being down.\<close>

theorem PostMessage_always_submits_witness:
  "''nowhere'' \<notin> chan_Name ` set [town, offtopic] \<and>
   PostMessage backend_down session [] ''nowhere'' ''hi'' =
     (Inr (), session,
      [Rest (Client_CreatePost \<lparr>post_UserId = '''', post_ChannelId = '''', post_Message = ''hi''\<rparr>)]) \<and>
   PostMessage backend_up session [] ''town'' ''hi'' =
     (Inr (), session,
      [Rest (Client_CreatePost \<lparr>post_UserId = '''', post_ChannelId = ''c1'', post_Message = ''hi''\<rparr>)])"
proof -
  have old: "cl_Channels \<lparr>cl_Channels = [town]\<rparr> @ cl_Channels \<lparr>cl_Channels = [offtopic]\<rparr> =
               [town, offtopic]"
    by simp
  note t = PostMessage_always_submits [OF session_simps(4) session_simps(5) session_simps(1),
             unfolded old]
  have nn: "''nowhere'' \<notin> chan_Name ` set [town, offtopic]"
    by (simp add: town_def offtopic_def)
  have it: "id_of_name [town, offtopic] ''town'' = Some ''c1''"
    by (simp add: id_of_name_def town_def offtopic_def)
  have p1: "PostMessage backend_down session [] ''nowhere'' ''hi'' =
     (Inr (), session,
      [Rest (Client_CreatePost \<lparr>post_UserId = '''', post_ChannelId = '''', post_Message = ''hi''\<rparr>)])"
    using t [of backend_down "[]" "''nowhere''" "''hi''", THEN conjunct2, THEN mp, OF nn] by simp
  have p2: "PostMessage backend_up session [] ''town'' ''hi'' =
     (Inr (), session,
      [Rest (Client_CreatePost \<lparr>post_UserId = '''', post_ChannelId = ''c1'', post_Message = ''hi''\<rparr>)])"
    using t [of backend_up "[]" "''town''" "''hi''", THEN conjunct1] by (simp add: it)
  show ?thesis
    by (intro conjI nn p1 p2)
qed

section \<open>History calls and fire-and-forget updates (C8)\<close>

text \<open>
  C8: each of the five operations by itself, whatever the backend does on other requests.
  When the backend reports an error on the request of \<^verbatim>\<open>GetPostsSince\<close>,
  \<^verbatim>\<open>SearchPosts\<close> or \<^verbatim>\<open>GetPosts\<close>, the operation returns nil (no post list at
  all), whatever result came beside the error; when it reports an error on the request of
  \<^verbatim>\<open>UpdateChannelHeader\<close> or \<^verbatim>\<open>UpdateLastViewed\<close>, the operation logs the error
  and returns normally.
\<close>

theorem backend_errors_on_command_surface:
  assumes "Client m = Some c"
  shows "(\<forall>r e. rest env (count_events is_Rest tr) (Client_GetPostsSince channelId time) = (r, Some e) \<longrightarrow>
            GetPostsSince env m tr channelId time =
              (Inr None, m, tr @ [Rest (Client_GetPostsSince channelId time)])) \<and>
         (\<forall>r e. rest env (count_events is_Rest tr) (Client_SearchPosts query) = (r, Some e) \<longrightarrow>
            SearchPosts env m tr query = (Inr None, m, tr @ [Rest (Client_SearchPosts query)])) \<and>
         (\<forall>r e. rest env (count_events is_Rest tr) (Client_GetPosts channelId 0 limit '''') = (r, Some e) \<longrightarrow>
            GetPosts env m tr channelId limit =
              (Inr None, m, tr @ [Rest (Client_GetPosts channelId 0 limit '''')])) \<and>
         (\<forall>r e. rest env (count_events is_Rest tr)
                  (Client_UpdateChannelHeader [(''channel_id'', channelId), (''channel_header'', header)]) =
                (r, Some e) \<longrightarrow>
            UpdateChannelHeader env m tr channelId header =
              (Inr (), m,
               tr @ [Log (LogUpdatingChannelHeader channelId header),
                     Rest (Client_UpdateChannelHeader
                             [(''channel_id'', channelId), (''channel_header'', header)]),
                     Log (LogAppError e)])) \<and>
         (\<forall>r e. rest env (count_events is_Rest tr) (Client_UpdateLastViewedAt channelId) = (r, Some e) \<longrightarrow>
            UpdateLastViewed env m tr channelId =
              (Inr (), m,
               tr @ [Log (LogPostingLastView channelId), Rest (Client_UpdateLastViewedAt channelId),
                     Log (LogAppError e)]))"
proof (intro conjI allI impI)
  note rc = rest_call_Some [OF assms(1)]
  {
    fix r e
    assume "rest env (count_events is_Rest tr) (Client_GetPostsSince channelId time) = (r, Some e)"
    then show "GetPostsSince env m tr channelId time =
          (Inr None, m, tr @ [Rest (Client_GetPostsSince channelId time)])"
      by (simp add: GetPostsSince_def rc post_list_of_error)
  next
    fix r e
    assume "rest env (count_events is_Rest tr) (Client_SearchPosts query) = (r, Some e)"
    then show "SearchPosts env m tr query = (Inr None, m, tr @ [Rest (Client_SearchPosts query)])"
      by (simp add: SearchPosts_def rc post_list_of_error)
  next
    fix r e
    assume "rest env (count_events is_Rest tr) (Client_GetPosts channelId 0 limit '''') = (r, Some e)"
    then show "GetPosts env m tr channelId limit =
          (Inr None, m, tr @ [Rest (Client_GetPosts channelId 0 limit '''')])"
      by (simp add: GetPosts_def rc post_list_of_error)
  next
    fix r e
    assume "rest env (count_events is_Rest tr)
              (Client_UpdateChannelHeader [(''channel_id'', channelId), (''channel_header'', header)]) =
            (r, Some e)"
    then show "UpdateChannelHeader env m tr channelId header =
           (Inr (), m,
            tr @ [Log (LogUpdatingChannelHeader channelId header),
                  Rest (Client_UpdateChannelHeader
                          [(''channel_id'', channelId), (''channel_header'', header)]),
                  Log (LogAppError e)])"
      by (simp add: UpdateChannelHeader_def rc count_events_simps)
  next
    fix r e
    assume "rest env (count_events is_Rest tr) (Client_UpdateLastViewedAt channelId) = (r, Some e)"
    then show "UpdateLastViewed env m tr channelId =
           (Inr (), m,
            tr @ [Log (LogPostingLastView channelId), Rest (Client_UpdateLastViewedAt channelId),
                  Log (LogAppError e)])"
      by (simp add: UpdateLastViewed_def rc count_events_simps)
  }
qed

text \<open>
  C8 on the concrete session: each operation against a backend that fails that one request
  and answers every other, and all of them against the backend that is down.
\<close>

theorem backend_errors_on_command_surface_witness:
  "rest (backend_failing (Client_GetPostsSince ''c1'' 42)) 0 (Client_GetPostsSince ''c1'' 42) =
     (None, Some refused) \<and>
   rest (backend_failing (Client_GetPostsSince ''c1'' 42)) 0 (Client_SearchPosts ''cats'') =
     (Some \<lparr>res_Data = DataOther\<rparr>, None) \<and>
   GetPostsSince (backend_failing (Client_GetPostsSince ''c1'' 42)) session [] ''c1'' 42 =
     (Inr None, session, [Rest (Client_GetPostsSince ''c1'' 42)]) \<and>
   SearchPosts (backend_failing (Client_SearchPosts ''cats'')) session [] ''cats'' =
     (Inr None, session, [Rest (Client_SearchPosts ''cats'')]) \<and>
   GetPosts (backend_failing (Client_GetPosts ''c1'' 0 10 '''')) session [] ''c1'' 10 =
     (Inr None, session, [Rest (Client_GetPosts ''c1'' 0 10 '''')]) \<and>
   UpdateChannelHeader
     (backend_failing
        (Client_UpdateChannelHeader [(''channel_id'', ''c1''), (''channel_header'', ''hello'')]))
     session [] ''c1'' ''hello'' =
     (Inr (), session,
      [Log (LogUpdatingChannelHeader ''c1'' ''hello''),
       Rest (Client_UpdateChannelHeader [(''channel_id'', ''c1''), (''channel_header'', ''hello'')]),
       Log (LogAppError refused)]) \<and>
   UpdateLastViewed (backend_failing (Client_UpdateLastViewedAt ''c1'')) session [] ''c1'' =
     (Inr (), session,
      [Log (LogPostingLastView ''c1''), Rest (Client_UpdateLastViewedAt ''c1''),
       Log (LogAppError refused)]) \<and>
   GetPostsSince backend_down session [] ''c1'' 42 =
     (Inr None, session, [Rest (Client_GetPostsSince ''c1'' 42)]) \<and>
   SearchPosts backend_down session [] ''cats'' = (Inr None, session, [Rest (Client_SearchPosts ''cats'')]) \<and>
   GetPosts backend_down session [] ''c1'' 10 =
     (Inr None, session, [Rest (Client_GetPosts ''c1'' 0 10 '''')])"
proof -
  have down: "rest backend_down k req = (None, Some refused)" for k req
    by (simp add: backend_down_def backend_simps)
  have failing: "rest (backend_failing req) k req = (None, Some refused)" for k req
    by (simp add: backend_failing_def backend_simps)
  have other: "rest (backend_failing (Client_GetPostsSince ''c1'' 42)) 0 (Client_SearchPosts ''cats'') =
                 (Some \<lparr>res_Data = DataOther\<rparr>, None)"
    by (simp add: backend_failing_def backend_simps answers_def)
  note t = backend_errors_on_command_surface [OF session_simps(1), where tr = "[]"]
  have a: "GetPostsSince (backend_failing (Client_GetPostsSince ''c1'' 42)) session [] ''c1'' 42 =
     (Inr None, session, [Rest (Client_GetPostsSince ''c1'' 42)])"
    using t [THEN conjunct1, rule_format, OF failing] by simp
  have b: "SearchPosts (backend_failing (Client_SearchPosts ''cats'')) session [] ''cats'' =
     (Inr None, session, [Rest (Client_SearchPosts ''cats'')])"
    using t [THEN conjunct2, THEN conjunct1, rule_format, OF failing] by simp
  have c: "GetPosts (backend_failing (Client_GetPosts ''c1'' 0 10 '''')) session [] ''c1'' 10 =
     (Inr None, session, [Rest (Client_GetPosts ''c1'' 0 10 '''')])"
    using t [THEN conjunct2, THEN conjunct2, THEN conjunct1, rule_format, OF failing] by simp
  have d: "UpdateChannelHeader
     (backend_failing
        (Client_UpdateChannelHeader [(''channel_id'', ''c1''), (''channel_header'', ''hello'')]))
     session [] ''c1'' ''hello'' =
     (Inr (), session,
      [Log (LogUpdatingChannelHeader ''c1'' ''hello''),
       Rest (Client_UpdateChannelHeader [(''channel_id'', ''c1''), (''channel_header'', ''hello'')]),
       Log (LogAppError refused)])"
    using t [THEN conjunct2, THEN conjunct2, THEN conjunct2, THEN conjunct1, rule_format, OF failing]
    by simp
  have e: "UpdateLastViewed (backend_failing (Client_UpdateLastViewedAt ''c1'')) session [] ''c1'' =
     (Inr (), session,
      [Log (LogPostingLastView ''c1''), Rest (Client_UpdateLastViewedAt ''c1''),
       Log (LogAppError refused)])"
    using t [THEN conjunct2, THEN conjunct2, THEN conjunct2, THEN conjunct2, rule_format, OF failing]
    by simp
  have f: "GetPostsSince backend_down session [] ''c1'' 42 =
     (Inr None, session, [Rest (Client_GetPostsSince ''c1'' 42)])"
    using t [THEN conjunct1, rule_format, OF down] by simp
  have g: "SearchPosts backend_down session [] ''cats'' =
     (Inr None, session, [Rest (Client_SearchPosts ''cats'')])"
    using t [THEN conjunct2, THEN conjunct1, rule_format, OF down] by simp
  have h: "GetPosts backend_down session [] ''c1'' 10 =
     (Inr None, session, [Rest (Client_GetPosts ''c1'' 0 10 '''')])"
    using t [THEN conjunct2, THEN conjunct2, THEN conjunct1, rule_format, OF down] by simp
  show ?thesis
    by (intro conjI failing other a b c d e f g h)
qed

subsection \<open>Normalising a post\<close>

lemma Split_without_separator: "sep \<noteq> [] \<Longrightarrow> \<not> Contains s sep \<Longrightarrow> Split s sep = [s]"
  by (subst Split.simps) (simp add: Contains_def)

lemma Split_two_Contains:
  assumes "Split s ''__'' = [U1, U2]"
  shows "Contains s ''__''"
proof (rule ccontr)
  assume "\<not> Contains s ''__''"
  then have "Split s ''__'' = [s]"
    by (rule Split_without_separator [rotated]) simp
  with assms show False by simp
qed

lemma refresh_if_unknown_cached:
  "Users m ident = Some u \<Longrightarrow> refresh_if_unknown env m tr ident = (Inr None, m, tr)"
  by (simp add: refresh_if_unknown_def)

lemma refresh_if_unknown_missing:
  "Users m ident = None \<Longrightarrow> refresh_if_unknown env m tr ident = UpdateUsers env m tr"
  by (simp add: refresh_if_unknown_def)

lemma UpdateUsers_sends_one_fetch:
  "User m = Some me \<Longrightarrow> Client m = Some c \<Longrightarrow>
   count_events is_GetProfiles (snd (snd (UpdateUsers env m tr))) =
     Suc (count_events is_GetProfiles tr)"
  by (auto simp: UpdateUsers_def rest_call_def count_events_simps
      split: option.splits data.splits prod.splits sum.splits)

lemma UpdateChannels_no_profiles:
  "count_events is_GetProfiles (snd (snd (UpdateChannels env m tr))) =
     count_events is_GetProfiles tr"
  by (auto simp: UpdateChannels_def rest_call_def Let_def count_events_simps
      split: option.splits data.splits prod.splits sum.splits)

lemma GetChannelName_no_profiles:
  "count_events is_GetProfiles (snd (snd (GetChannelName env m tr ident))) =
     count_events is_GetProfiles tr"
proof -
  have "snd (snd (GetChannelName env m tr ident)) = tr \<or>
        snd (snd (GetChannelName env m tr ident)) = snd (snd (UpdateChannels env m tr))"
    by (auto simp: GetChannelName_def split: option.splits sum.splits prod.splits)
  then show ?thesis
    by (auto simp: UpdateChannels_no_profiles)
qed

lemma UpdateChannels_keeps_Users: "Users (fst (snd (UpdateChannels env m tr))) = Users m"
  by (auto simp: UpdateChannels_def rest_call_def Let_def
      split: option.splits data.splits prod.splits sum.splits)

lemma GetChannelName_keeps_Users: "Users (fst (snd (GetChannelName env m tr ident))) = Users m"
proof -
  have "fst (snd (GetChannelName env m tr ident)) = m \<or>
        fst (snd (GetChannelName env m tr ident)) = fst (snd (UpdateChannels env m tr))"
    by (auto simp: GetChannelName_def split: option.splits sum.splits prod.splits)
  then show ?thesis
    by (auto simp: UpdateChannels_keeps_Users)
qed

text \<open>What \<^verbatim>\<open>parseActionPost\<close> does once the acting user is resolved.\<close>

lemma parseActionPost_after_user:
  assumes "PostFromJson env (case raw_Props (msg_Raw rmsg) ''post'' of None \<Rightarrow> '''' | Some s \<Rightarrow> s) =
             Some data"
    and "refresh_if_unknown env m tr (post_UserId data) = (Inr x, m1, tr1)"
    and "Users m1 (post_UserId data) = Some actor"
  shows "parseActionPost env m tr rmsg =
           (case GetChannelName env m1 tr1 (post_ChannelId data) of
              (Inl p, m2, tr2) \<Rightarrow> (Inl p, m2, tr2)
            | (Inr channel, m2, tr2) \<Rightarrow>
                (case direct_message m2 channel of
                   Inl p \<Rightarrow> (Inl p, m2, tr2)
                 | Inr shown \<Rightarrow>
                     (Inr (rmsg\<lparr>msg_Username := user_Username actor, msg_Channel := shown,
                                msg_Text := post_Message data, msg_Post := Some data\<rparr>),
                      m2, tr2)))"
  using assms by (simp add: parseActionPost_def username_of_def)

lemma parseActionPost_after_user_trace:
  assumes "PostFromJson env (case raw_Props (msg_Raw rmsg) ''post'' of None \<Rightarrow> '''' | Some s \<Rightarrow> s) =
             Some data"
  shows "count_events is_GetProfiles (snd (snd (parseActionPost env m tr rmsg))) =
           count_events is_GetProfiles (snd (snd (refresh_if_unknown env m tr (post_UserId data))))"
proof -
  obtain r m1 tr1 where ru: "refresh_if_unknown env m tr (post_UserId data) = (r, m1, tr1)"
    by (cases "refresh_if_unknown env m tr (post_UserId data)") auto
  have "snd (snd (parseActionPost env m tr rmsg)) = tr1 \<or>
        snd (snd (parseActionPost env m tr rmsg)) =
          snd (snd (GetChannelName env m1 tr1 (post_ChannelId data)))"
    using assms ru
    by (auto simp: parseActionPost_def split: option.splits sum.splits prod.splits)
  then show ?thesis
    using ru by (auto simp: GetChannelName_no_profiles)
qed

lemma parseActionPost_resolved:
  assumes "PostFromJson env (case raw_Props (msg_Raw rmsg) ''post'' of None \<Rightarrow> '''' | Some s \<Rightarrow> s) =
             Some data"
    and "refresh_if_unknown env m tr (post_UserId data) = (Inr x, m1, tr1)"
    and "Users m1 (post_UserId data) = Some actor"
  shows "Users (fst (snd (parseActionPost env m tr rmsg))) = Users m1"
    and "fst (parseActionPost env m tr rmsg) = Inr msg \<Longrightarrow> msg_Username msg = user_Username actor"
proof -
  note unfolded = parseActionPost_after_user [OF assms]
  have "fst (snd (parseActionPost env m tr rmsg)) =
          fst (snd (GetChannelName env m1 tr1 (post_ChannelId data)))"
    unfolding unfolded by (simp split: prod.splits sum.splits)
  then show "Users (fst (snd (parseActionPost env m tr rmsg))) = Users m1"
    by (simp add: GetChannelName_keeps_Users)
  show "msg_Username msg = user_Username actor" if "fst (parseActionPost env m tr rmsg) = Inr msg"
    using that unfolding unfolded by (auto split: prod.splits sum.splits)
qed

lemma direct_message_plain: "\<not> Contains channel ''__'' \<Longrightarrow> direct_message m channel = Inr channel"
  by (simp add: direct_message_def)

section \<open>Refreshing the user cache while normalising (C6)\<close>

text \<open>
  C6: normalising a post frame whose acting user is in the user cache sends no profile
  request; when the acting user is not in the cache exactly one profile request is sent,
  whatever the backend answers. When that refresh brings a user map that has the acting
  user, the refreshed map is the cache afterwards and every message returned carries the
  username found in it; with the channel cached under a plain name the message is
  returned, with that username.
\<close>

theorem parseActionPost_refreshes_users_once:
  assumes "PostFromJson env (case raw_Props (msg_Raw rmsg) ''post'' of None \<Rightarrow> '''' | Some s \<Rightarrow> s) =
             Some data"
    and "User m = Some me" and "Client m = Some c"
  shows "(\<forall>u. Users m (post_UserId data) = Some u \<longrightarrow>
            count_events is_GetProfiles (snd (snd (parseActionPost env m tr rmsg))) =
              count_events is_GetProfiles tr \<and>
            (\<forall>msg. fst (parseActionPost env m tr rmsg) = Inr msg \<longrightarrow>
                   msg_Username msg = user_Username u)) \<and>
         (Users m (post_UserId data) = None \<longrightarrow>
            count_events is_GetProfiles (snd (snd (parseActionPost env m tr rmsg))) =
              Suc (count_events is_GetProfiles tr)) \<and>
         (\<forall>r e us u.
            Users m (post_UserId data) = None \<longrightarrow>
            rest env (count_events is_Rest tr) (Client_GetProfiles (user_TeamId me) '''') = (Some r, e) \<longrightarrow>
            res_Data r = DataUsers us \<longrightarrow>
            us (post_UserId data) = Some u \<longrightarrow>
              Users (fst (snd (parseActionPost env m tr rmsg))) = us \<and>
              (\<forall>msg. fst (parseActionPost env m tr rmsg) = Inr msg \<longrightarrow>
                     msg_Username msg = user_Username u) \<and>
              (\<forall>a b n. Channels m = Some a \<longrightarrow> MoreChannels m = Some b \<longrightarrow>
                 name_of_id (cl_Channels a @ cl_Channels b) (post_ChannelId data) = Some n \<longrightarrow>
                 \<not> Contains n ''__'' \<longrightarrow>
                   parseActionPost env m tr rmsg =
                     (Inr (rmsg\<lparr>msg_Username := user_Username u, msg_Channel := n,
                                msg_Text := post_Message data, msg_Post := Some data\<rparr>),
                      m\<lparr>Users := us\<rparr>,
                      tr @ [Rest (Client_GetProfiles (user_TeamId me) '''')])))"
proof (intro conjI allI impI)
  note tr_eq = parseActionPost_after_user_trace [OF assms(1)]
  {
    fix u
    assume cached: "Users m (post_UserId data) = Some u"
    note ru = refresh_if_unknown_cached [OF cached]
    show "count_events is_GetProfiles (snd (snd (parseActionPost env m tr rmsg))) =
            count_events is_GetProfiles tr"
      by (simp add: tr_eq ru)
    fix msg
    assume "fst (parseActionPost env m tr rmsg) = Inr msg"
    then show "msg_Username msg = user_Username u"
      by (rule parseActionPost_resolved(2) [OF assms(1) ru cached])
  next
    assume missing: "Users m (post_UserId data) = None"
    show "count_events is_GetProfiles (snd (snd (parseActionPost env m tr rmsg))) =
            Suc (count_events is_GetProfiles tr)"
      by (simp add: tr_eq refresh_if_unknown_missing [OF missing]
          UpdateUsers_sends_one_fetch [OF assms(2,3)])
  next
    fix r e us u
    assume missing: "Users m (post_UserId data) = None"
      and answer: "rest env (count_events is_Rest tr) (Client_GetProfiles (user_TeamId me) '''') =
                     (Some r, e)"
      and payload: "res_Data r = DataUsers us"
      and found: "us (post_UserId data) = Some u"
    have ru: "refresh_if_unknown env m tr (post_UserId data) =
                (Inr None, m\<lparr>Users := us\<rparr>, tr @ [Rest (Client_GetProfiles (user_TeamId me) '''')])"
      by (simp add: refresh_if_unknown_missing [OF missing]
          UpdateUsers_fetched [OF assms(2,3) answer payload])
    have found': "Users (m\<lparr>Users := us\<rparr>) (post_UserId data) = Some u"
      using found by simp
    show "Users (fst (snd (parseActionPost env m tr rmsg))) = us"
      using parseActionPost_resolved(1) [OF assms(1) ru found'] by simp
    {
      fix msg
      assume "fst (parseActionPost env m tr rmsg) = Inr msg"
      then show "msg_Username msg = user_Username u"
        by (rule parseActionPost_resolved(2) [OF assms(1) ru found'])
    next
      fix a b n
      assume "Channels m = Some a" and "MoreChannels m = Some b"
        and hit: "name_of_id (cl_Channels a @ cl_Channels b) (post_ChannelId data) = Some n"
        and plain: "\<not> Contains n ''__''"
      then have "all_channels (m\<lparr>Users := us\<rparr>) = Inr (cl_Channels a @ cl_Channels b)"
        by (simp add: all_channels_def)
      from GetChannelName_hit [OF this hit]
      show "parseActionPost env m tr rmsg =
              (Inr (rmsg\<lparr>msg_Username := user_Username u, msg_Channel := n,
                         msg_Text := post_Message data, msg_Post := Some data\<rparr>),
               m\<lparr>Users := us\<rparr>,
               tr @ [Rest (Client_GetProfiles (user_TeamId me) '''')])"
        by (simp add: parseActionPost_after_user [OF assms(1) ru found']
            direct_message_plain [OF plain])
    }
  }
qed

lemma envelope_payload:
  "PostFromJson (backend f)
     (case raw_Props (msg_Raw (envelope payload)) ''post'' of None \<Rightarrow> '''' | Some s \<Rightarrow> s) =
   decode payload"
  by (simp add: envelope_def backend_simps)

lemma decode_simps:
  "decode ''hello'' = Some \<lparr>post_UserId = ''u2'', post_ChannelId = ''c3'', post_Message = ''hello''\<rparr>"
  "decode ''news'' = Some \<lparr>post_UserId = ''u1'', post_ChannelId = ''c1'', post_Message = ''news''\<rparr>"
  "decode ''hey'' = Some \<lparr>post_UserId = ''u2'', post_ChannelId = ''c1'', post_Message = ''hey''\<rparr>"
  by (simp_all add: decode_def)

text \<open>
  C6 on the concrete session, where only \<open>alice\<close> is cached: a post of \<open>bob\<close> in a cached
  channel, a post of \<open>bob\<close> in a direct channel, a post of \<open>alice\<close>.
\<close>

theorem parseActionPost_refreshes_users_once_witness:
  "Users session ''u2'' = None \<and> Users session ''u1'' = Some alice \<and>
   parseActionPost backend_up session [] (envelope ''hey'') =
     (Inr ((envelope ''hey'')\<lparr>msg_Username := ''bob'', msg_Channel := ''town'', msg_Text := ''hey'',
             msg_Post := Some \<lparr>post_UserId = ''u2'', post_ChannelId = ''c1'', post_Message = ''hey''\<rparr>\<rparr>),
      session\<lparr>Users := [''u1'' \<mapsto> alice, ''u2'' \<mapsto> bob]\<rparr>,
      [Rest (Client_GetProfiles ''t1'' '''')]) \<and>
   count_events is_GetProfiles (snd (snd (parseActionPost backend_up session [] (envelope ''hello'')))) = 1 \<and>
   count_events is_GetProfiles (snd (snd (parseActionPost backend_up session [] (envelope ''news'')))) = 0"
proof -
  have hey: "PostFromJson backend_up
               (case raw_Props (msg_Raw (envelope ''hey'')) ''post'' of None \<Rightarrow> '''' | Some s \<Rightarrow> s) =
             Some \<lparr>post_UserId = ''u2'', post_ChannelId = ''c1'', post_Message = ''hey''\<rparr>"
    and hello: "PostFromJson backend_up
               (case raw_Props (msg_Raw (envelope ''hello'')) ''post'' of None \<Rightarrow> '''' | Some s \<Rightarrow> s) =
             Some \<lparr>post_UserId = ''u2'', post_ChannelId = ''c3'', post_Message = ''hello''\<rparr>"
    and news: "PostFromJson backend_up
               (case raw_Props (msg_Raw (envelope ''news'')) ''post'' of None \<Rightarrow> '''' | Some s \<Rightarrow> s) =
             Some \<lparr>post_UserId = ''u1'', post_ChannelId = ''c1'', post_Message = ''news''\<rparr>"
    by (simp_all add: backend_up_def envelope_payload decode_simps)
  have u2: "Users session ''u2'' = None" and u1: "Users session ''u1'' = Some alice"
    by (simp_all add: session_simps)
  have answer: "rest backend_up (count_events is_Rest []) (Client_GetProfiles (user_TeamId alice) '''') =
             (Some \<lparr>res_Data = DataUsers [''u1'' \<mapsto> alice, ''u2'' \<mapsto> bob]\<rparr>, None)"
    by (simp add: backend_up_def backend_simps answers_def)
  have town_hit: "name_of_id (cl_Channels \<lparr>cl_Channels = [town]\<rparr> @ cl_Channels \<lparr>cl_Channels = [offtopic]\<rparr>)
                    ''c1'' = Some ''town''"
    by (simp add: name_of_id_def town_def offtopic_def)
  have plain: "\<not> Contains ''town'' ''__''"
    by (simp add: Contains_def)
  note t = parseActionPost_refreshes_users_once [OF _ session_simps(2) session_simps(1)]
  have r1: "parseActionPost backend_up session [] (envelope ''hey'') =
     (Inr ((envelope ''hey'')\<lparr>msg_Username := ''bob'', msg_Channel := ''town'', msg_Text := ''hey'',
             msg_Post := Some \<lparr>post_UserId = ''u2'', post_ChannelId = ''c1'', post_Message = ''hey''\<rparr>\<rparr>),
      session\<lparr>Users := [''u1'' \<mapsto> alice, ''u2'' \<mapsto> bob]\<rparr>,
      [Rest (Client_GetProfiles ''t1'' '''')])"
    using t [OF hey, of "[]", THEN conjunct2, THEN conjunct2, rule_format,
             of "\<lparr>res_Data = DataUsers [''u1'' \<mapsto> alice, ''u2'' \<mapsto> bob]\<rparr>" None
                "[''u1'' \<mapsto> alice, ''u2'' \<mapsto> bob]" bob,
             THEN conjunct2, THEN conjunct2, rule_format,
             OF _ _ _ _ session_simps(4) session_simps(5) _ plain]
      u2 answer town_hit
    by (simp add: alice_def bob_def)
  have r2: "count_events is_GetProfiles
              (snd (snd (parseActionPost backend_up session [] (envelope ''hello'')))) = 1"
    using t [OF hello, of "[]", THEN conjunct2, THEN conjunct1] u2
    by (simp add: count_events_simps)
  have r3: "count_events is_GetProfiles
              (snd (snd (parseActionPost backend_up session [] (envelope ''news'')))) = 0"
    using t [OF news, of "[]", THEN conjunct1, rule_format, of alice, THEN conjunct1] u1
    by (simp add: count_events_simps)
  show ?thesis
    by (intro conjI u2 u1 r1 r2 r3)
qed

lemma index_pair: "index [a, b] 0 = Inr a" "index [a, b] (Suc 0) = Inr b"
  by (simp_all add: index_def)

lemma direct_message_pair:
  assumes "Split channel ''__'' = [U1, U2]" and "User m = Some me"
  shows "direct_message m channel =
           (if U1 \<noteq> user_Id me then username_of m U1 else username_of m U2)"
  using assms Split_two_Contains [OF assms(1)]
  by (simp add: direct_message_def index_pair)

section \<open>Direct-message channels (C3)\<close>

text \<open>
  C3: when the resolved channel name splits at \<open>__\<close> into exactly the two identifiers
  \<open>U1\<close> and \<open>U2\<close>, the message returned shows as its channel the username of \<open>U2\<close> if
  the session user is \<open>U1\<close>, and the username of \<open>U1\<close> if the session user is \<open>U2\<close>.
  The hypotheses name the two steps before the direct-message block: the acting user is
  resolved, after a refresh if one was needed, and the channel name is resolved.
\<close>

theorem parseActionPost_direct_message:
  assumes "PostFromJson env (case raw_Props (msg_Raw rmsg) ''post'' of None \<Rightarrow> '''' | Some s \<Rightarrow> s) =
             Some data"
    and "refresh_if_unknown env m tr (post_UserId data) = (Inr x, m1, tr1)"
    and "Users m1 (post_UserId data) = Some actor"
    and "GetChannelName env m1 tr1 (post_ChannelId data) = (Inr channel, m2, tr2)"
    and "Split channel ''__'' = [U1, U2]"
    and "User m2 = Some me"
  shows "(\<forall>u2. user_Id me = U1 \<longrightarrow> Users m2 U2 = Some u2 \<longrightarrow>
            parseActionPost env m tr rmsg =
              (Inr (rmsg\<lparr>msg_Username := user_Username actor, msg_Channel := user_Username u2,
                         msg_Text := post_Message data, msg_Post := Some data\<rparr>),
               m2, tr2)) \<and>
         (\<forall>u1. user_Id me = U2 \<longrightarrow> Users m2 U1 = Some u1 \<longrightarrow>
            parseActionPost env m tr rmsg =
              (Inr (rmsg\<lparr>msg_Username := user_Username actor, msg_Channel := user_Username u1,
                         msg_Text := post_Message data, msg_Post := Some data\<rparr>),
               m2, tr2))"
proof (intro conjI allI impI)
  note after = parseActionPost_after_user [OF assms(1-3)]
  note dm = direct_message_pair [OF assms(5,6)]
  {
    fix u2
    assume "user_Id me = U1" and "Users m2 U2 = Some u2"
    then have "direct_message m2 channel = Inr (user_Username u2)"
      by (simp add: dm username_of_def)
    then show "parseActionPost env m tr rmsg =
              (Inr (rmsg\<lparr>msg_Username := user_Username actor, msg_Channel := user_Username u2,
                         msg_Text := post_Message data, msg_Post := Some data\<rparr>),
               m2, tr2)"
      by (simp add: after assms(4))
  next
    fix u1
    assume "user_Id me = U2" and "Users m2 U1 = Some u1"
    then have "direct_message m2 channel = Inr (user_Username u1)"
      by (cases "U1 = U2") (simp_all add: dm username_of_def)
    then show "parseActionPost env m tr rmsg =
              (Inr (rmsg\<lparr>msg_Username := user_Username actor, msg_Channel := user_Username u1,
                         msg_Text := post_Message data, msg_Post := Some data\<rparr>),
               m2, tr2)"
      by (simp add: after assms(4))
  }
qed

text \<open>The two steps before the direct-message block, run on the concrete session.\<close>

lemma concrete_user_step:
  "user_TeamId w = ''t1'' \<Longrightarrow>
   refresh_if_unknown backend_up (session\<lparr>User := Some w\<rparr>) [] ''u2'' =
     (Inr None, session\<lparr>User := Some w, Users := [''u1'' \<mapsto> alice, ''u2'' \<mapsto> bob]\<rparr>,
      [Rest (Client_GetProfiles ''t1'' '''')])"
  by (simp add: refresh_if_unknown_def UpdateUsers_def rest_call_def session_def
      backend_up_def backend_simps answers_def count_events_simps)

lemma concrete_channel_step:
  "GetChannelName backend_up
     (session\<lparr>User := Some w, Users := [''u1'' \<mapsto> alice, ''u2'' \<mapsto> bob]\<rparr>)
     [Rest (Client_GetProfiles ''t1'' '''')] ''c3'' =
   (Inr ''u1__u2'',
    session\<lparr>User := Some w, Users := [''u1'' \<mapsto> alice, ''u2'' \<mapsto> bob],
            Channels := Some \<lparr>cl_Channels = [town, direct]\<rparr>,
            MoreChannels := Some \<lparr>cl_Channels = [offtopic]\<rparr>\<rparr>,
    [Rest (Client_GetProfiles ''t1'' ''''), Rest (Client_GetChannels ''''),
     Rest (Client_GetMoreChannels '''')])"
  by (simp add: GetChannelName_def all_channels_def name_of_id_def UpdateChannels_def
      rest_call_def Let_def session_def backend_up_def backend_simps answers_def
      count_events_simps town_def offtopic_def direct_def)

text \<open>
  C3 on the concrete session: \<open>bob\<close> (\<open>u2\<close>) writes in the direct channel \<open>u1__u2\<close>.
  In the session of \<open>alice\<close> (\<open>u1\<close>) the channel shows as \<open>bob\<close>, in the session of
  \<open>bob\<close> as \<open>alice\<close>.
\<close>

theorem parseActionPost_direct_message_witness:
  "Split ''u1__u2'' ''__'' = [''u1'', ''u2''] \<and>
   parseActionPost backend_up (session\<lparr>User := Some alice\<rparr>) [] (envelope ''hello'') =
     (Inr ((envelope ''hello'')\<lparr>msg_Username := ''bob'', msg_Channel := ''bob'', msg_Text := ''hello'',
             msg_Post := Some \<lparr>post_UserId = ''u2'', post_ChannelId = ''c3'', post_Message = ''hello''\<rparr>\<rparr>),
      session\<lparr>User := Some alice, Users := [''u1'' \<mapsto> alice, ''u2'' \<mapsto> bob],
              Channels := Some \<lparr>cl_Channels = [town, direct]\<rparr>,
              MoreChannels := Some \<lparr>cl_Channels = [offtopic]\<rparr>\<rparr>,
      [Rest (Client_GetProfiles ''t1'' ''''), Rest (Client_GetChannels ''''),
       Rest (Client_GetMoreChannels '''')]) \<and>
   parseActionPost backend_up (session\<lparr>User := Some bob\<rparr>) [] (envelope ''hello'') =
     (Inr ((envelope ''hello'')\<lparr>msg_Username := ''bob'', msg_Channel := ''alice'', msg_Text := ''hello'',
             msg_Post := Some \<lparr>post_UserId = ''u2'', post_ChannelId = ''c3'', post_Message = ''hello''\<rparr>\<rparr>),
      session\<lparr>User := Some bob, Users := [''u1'' \<mapsto> alice, ''u2'' \<mapsto> bob],
              Channels := Some \<lparr>cl_Channels = [town, direct]\<rparr>,
              MoreChannels := Some \<lparr>cl_Channels = [offtopic]\<rparr>\<rparr>,
      [Rest (Client_GetProfiles ''t1'' ''''), Rest (Client_GetChannels ''''),
       Rest (Client_GetMoreChannels '''')])"
proof -
  have hello: "PostFromJson backend_up
               (case raw_Props (msg_Raw (envelope ''hello'')) ''post'' of None \<Rightarrow> '''' | Some s \<Rightarrow> s) =
             Some \<lparr>post_UserId = ''u2'', post_ChannelId = ''c3'', post_Message = ''hello''\<rparr>"
    by (simp add: backend_up_def envelope_payload decode_simps)
  have split: "Split ''u1__u2'' ''__'' = [''u1'', ''u2'']"
    by (simp add: Split.simps)
  have team: "user_TeamId alice = ''t1''" "user_TeamId bob = ''t1''"
    by (simp_all add: alice_def bob_def)
  have ids: "user_Id alice = ''u1''" "user_Id bob = ''u2''"
    and names: "user_Username alice = ''alice''" "user_Username bob = ''bob''"
    by (simp_all add: alice_def bob_def)
  note t = parseActionPost_direct_message
             [where data = "\<lparr>post_UserId = ''u2'', post_ChannelId = ''c3'', post_Message = ''hello''\<rparr>"
                and actor = bob and ?U1.0 = "''u1''" and ?U2.0 = "''u2''", OF hello, simplified]
  have a: "parseActionPost backend_up (session\<lparr>User := Some alice\<rparr>) [] (envelope ''hello'') =
     (Inr ((envelope ''hello'')\<lparr>msg_Username := ''bob'', msg_Channel := ''bob'', msg_Text := ''hello'',
             msg_Post := Some \<lparr>post_UserId = ''u2'', post_ChannelId = ''c3'', post_Message = ''hello''\<rparr>\<rparr>),
      session\<lparr>User := Some alice, Users := [''u1'' \<mapsto> alice, ''u2'' \<mapsto> bob],
              Channels := Some \<lparr>cl_Channels = [town, direct]\<rparr>,
              MoreChannels := Some \<lparr>cl_Channels = [offtopic]\<rparr>\<rparr>,
      [Rest (Client_GetProfiles ''t1'' ''''), Rest (Client_GetChannels ''''),
       Rest (Client_GetMoreChannels '''')])"
    using t [OF concrete_user_step [OF team(1)] _ concrete_channel_step split, of alice,
             THEN conjunct1, rule_format, of bob]
    by (simp add: ids names)
  have b: "parseActionPost backend_up (session\<lparr>User := Some bob\<rparr>) [] (envelope ''hello'') =
     (Inr ((envelope ''hello'')\<lparr>msg_Username := ''bob'', msg_Channel := ''alice'', msg_Text := ''hello'',
             msg_Post := Some \<lparr>post_UserId = ''u2'', post_ChannelId = ''c3'', post_Message = ''hello''\<rparr>\<rparr>),
      session\<lparr>User := Some bob, Users := [''u1'' \<mapsto> alice, ''u2'' \<mapsto> bob],
              Channels := Some \<lparr>cl_Channels = [town, direct]\<rparr>,
              MoreChannels := Some \<lparr>cl_Channels = [offtopic]\<rparr>\<rparr>,
      [Rest (Client_GetProfiles ''t1'' ''''), Rest (Client_GetChannels ''''),
       Rest (Client_GetMoreChannels '''')])"
    using t [OF concrete_user_step [OF team(2)] _ concrete_channel_step split, of bob,
             THEN conjunct2, rule_format, of alice]
    by (simp add: ids names)
  show ?thesis
    by (intro conjI split a b)
qed

subsection \<open>The login loop\<close>

lemma login_loop_break:
  assumes "rest env (count_events is_Rest tr)
             (Client_LoginByEmail (cred_Team cr) (cred_Login cr) (cred_Pass cr)) = (myinfo, None)"
  shows "login_loop env cr b tr =
           Some (Inr (myinfo, token env (count_events is_Rest tr)), b,
                 tr @ [Log (LogRetryingLogin (cred_Team cr) (cred_Login cr) (cred_Server cr)),
                       Rest (Client_LoginByEmail (cred_Team cr) (cred_Login cr) (cred_Pass cr))])"
  using assms by (subst login_loop.simps) (simp add: login_attempt_def Let_def count_events_simps)

lemma login_loop_return:
  assumes "rest env (count_events is_Rest tr)
             (Client_LoginByEmail (cred_Team cr) (cred_Login cr) (cred_Pass cr)) = (myinfo, Some e)"
    and "\<not> transient e"
  shows "login_loop env cr b tr =
           Some (Inl (err_Message e), b\<lparr>bo_attempt := Suc (bo_attempt b)\<rparr>,
                 tr @ [Log (LogRetryingLogin (cred_Team cr) (cred_Login cr) (cred_Server cr)),
                       Rest (Client_LoginByEmail (cred_Team cr) (cred_Login cr) (cred_Pass cr))])"
  using assms
  by (subst login_loop.simps)
     (simp add: login_attempt_def Let_def count_events_simps Duration_def transient_def)

lemma login_loop_returns_on_other_answer:
  assumes "login_loop env cr b tr = Some y"
  shows "\<exists>j r e. rest env (count_events is_Rest tr + j)
                   (Client_LoginByEmail (cred_Team cr) (cred_Login cr) (cred_Pass cr)) = (r, e) \<and>
                 (\<forall>a. e = Some a \<longrightarrow> \<not> transient a)"
proof (rule login_loop.raw_induct
         [where P = "\<lambda>env cr b tr y.
            \<exists>j r e. rest env (count_events is_Rest tr + j)
                      (Client_LoginByEmail (cred_Team cr) (cred_Login cr) (cred_Pass cr)) = (r, e) \<and>
                    (\<forall>a. e = Some a \<longrightarrow> \<not> transient a)",
          OF _ assms], goal_cases)
  case (1 f env cr b tr y)
  let ?req = "Client_LoginByEmail (cred_Team cr) (cred_Login cr) (cred_Pass cr)"
  obtain myinfo appErr where first: "rest env (count_events is_Rest tr) ?req = (myinfo, appErr)"
    by (cases "rest env (count_events is_Rest tr) ?req") auto
  show ?case
  proof (cases "\<exists>a. appErr = Some a \<and> transient a")
    case False
    with first have "rest env (count_events is_Rest tr + 0) ?req = (myinfo, appErr) \<and>
                     (\<forall>a. appErr = Some a \<longrightarrow> \<not> transient a)"
      by auto
    then show ?thesis by blast
  next
    case True
    then obtain a where a: "appErr = Some a" "transient a" by blast
    let ?d = "delay env (Suc (Suc (length tr))) (bo_attempt b)"
    let ?tr1 = "tr @ [Log (LogRetryingLogin (cred_Team cr) (cred_Login cr) (cred_Server cr)),
                      Rest ?req, Log (LogLogin a ?d), Sleep ?d]"
    from 1(2) first a
    have "f env cr (b\<lparr>bo_attempt := Suc (bo_attempt b)\<rparr>) ?tr1 = Some y"
      by (auto simp: login_attempt_def Let_def count_events_simps Duration_def transient_def
          split: if_splits)
    from 1(1) [OF this] obtain j r e where
      "rest env (count_events is_Rest ?tr1 + j) ?req = (r, e)" "\<forall>a. e = Some a \<longrightarrow> \<not> transient a"
      by blast
    then have "rest env (count_events is_Rest tr + Suc j) ?req = (r, e) \<and>
               (\<forall>a. e = Some a \<longrightarrow> \<not> transient a)"
      by (simp add: count_events_simps)
    then show ?thesis by blast
  qed
qed

lemma login_loop_retries_forever:
  assumes "\<forall>j. \<exists>r e. rest env (count_events is_Rest tr + j)
                       (Client_LoginByEmail (cred_Team cr) (cred_Login cr) (cred_Pass cr)) = (r, Some e) \<and>
                     transient e"
  shows "login_loop env cr b tr = None"
proof (cases "login_loop env cr b tr")
  case None
  then show ?thesis .
next
  case (Some y)
  from login_loop_returns_on_other_answer [OF Some] obtain j r e where
    "rest env (count_events is_Rest tr + j)
       (Client_LoginByEmail (cred_Team cr) (cred_Login cr) (cred_Pass cr)) = (r, e)"
    "\<forall>a. e = Some a \<longrightarrow> \<not> transient a"
    by blast
  with assms show ?thesis
    by (metis prod.inject)
qed

lemma populate_error_nil: "populate env m tr = (Inr x, m', tr') \<Longrightarrow> x = None"
  by (auto simp: populate_def split: prod.splits sum.splits)

lemma Login_of_return:
  assumes "login_loop env (Credentials m)
             \<lparr>bo_Min = 1000000000, bo_Max = 300000000000, bo_Jitter = True, bo_attempt = 0\<rparr> tr =
           Some (Inl msg, b1, tr1)"
  shows "Login env m tr =
           Some (Inr (Some msg),
                 m\<lparr>Client := Some \<lparr>client_Url =
                                     (if cred_NoTLS (Credentials m) then ''http://'' else ''https://'') @
                                     cred_Server (Credentials m),
                                   client_AuthToken = ''''\<rparr>\<rparr>,
                 tr1)"
  using assms by (simp add: Login_def Let_def)

lemma Login_of_forever:
  assumes "login_loop env (Credentials m)
             \<lparr>bo_Min = 1000000000, bo_Max = 300000000000, bo_Jitter = True, bo_attempt = 0\<rparr> tr = None"
  shows "Login env m tr = None"
  using assms by (simp add: Login_def Let_def)

lemma Login_of_break:
  assumes "login_loop env (Credentials m)
             \<lparr>bo_Min = 1000000000, bo_Max = 300000000000, bo_Jitter = True, bo_attempt = 0\<rparr> tr =
           Some (Inr (myinfo, tok), b1, tr1)"
  shows "Login env m tr \<noteq> Some (Inr (Some msg), m', tr')"
  using assms
  by (auto simp: Login_def Let_def split: option.splits data.splits prod.splits
      dest: populate_error_nil)

lemma login_attempt_retry:
  assumes "rest env (count_events is_Rest tr)
             (Client_LoginByEmail (cred_Team cr) (cred_Login cr) (cred_Pass cr)) = (myinfo, Some e)"
    and "transient e"
  shows "login_attempt env cr b tr =
           Inr (b\<lparr>bo_attempt := Suc (bo_attempt b)\<rparr>,
                tr @ [Log (LogRetryingLogin (cred_Team cr) (cred_Login cr) (cred_Server cr)),
                      Rest (Client_LoginByEmail (cred_Team cr) (cred_Login cr) (cred_Pass cr)),
                      Log (LogLogin e (delay env (length tr + 2) (bo_attempt b))),
                      Sleep (delay env (length tr + 2) (bo_attempt b))])"
  using assms
  by (auto simp: login_attempt_def Let_def count_events_simps Duration_def transient_def)

lemma login_loop_after_attempts:
  "login_attempts n env cr b tr = Inr (b', tr') \<Longrightarrow>
   login_loop env cr b tr = login_loop env cr b' tr'"
proof (induction n arbitrary: b tr)
  case 0
  then show ?case by simp
next
  case (Suc n)
  then obtain b1 tr1 where first: "login_attempt env cr b tr = Inr (b1, tr1)"
    and rest: "login_attempts n env cr b1 tr1 = Inr (b', tr')"
    by (auto split: sum.splits)
  have "login_loop env cr b tr = login_loop env cr b1 tr1"
    by (subst login_loop.simps) (simp add: first)
  with Suc.IH [OF rest] show ?case by simp
qed

text \<open>
  The passes of the loop while the backend keeps answering with transient errors: each
  pass logs, sends the login request, logs the error with the duration the backoff gives
  for the attempt, and sleeps that duration; the attempt counter goes up by one.
\<close>

lemma login_attempts_retries:
  assumes "\<forall>j<n. \<exists>r e. rest env (count_events is_Rest tr + j)
                        (Client_LoginByEmail (cred_Team cr) (cred_Login cr) (cred_Pass cr)) = (r, Some e) \<and>
                      transient e"
  shows "\<exists>tr'. login_attempts n env cr b tr = Inr (b\<lparr>bo_attempt := bo_attempt b + n\<rparr>, tr') \<and>
               length tr' = length tr + 4 * n \<and> take (length tr) tr' = tr \<and>
               count_events is_Sleep tr' = count_events is_Sleep tr + n \<and>
               count_events is_Rest tr' = count_events is_Rest tr + n \<and>
               (\<forall>j<n. \<exists>r e.
                  rest env (count_events is_Rest tr + j)
                    (Client_LoginByEmail (cred_Team cr) (cred_Login cr) (cred_Pass cr)) = (r, Some e) \<and>
                  tr' ! (length tr + 4 * j) =
                    Log (LogRetryingLogin (cred_Team cr) (cred_Login cr) (cred_Server cr)) \<and>
                  tr' ! (length tr + 4 * j + 1) =
                    Rest (Client_LoginByEmail (cred_Team cr) (cred_Login cr) (cred_Pass cr)) \<and>
                  tr' ! (length tr + 4 * j + 2) =
                    Log (LogLogin e (delay env (length tr + 4 * j + 2) (bo_attempt b + j))) \<and>
                  tr' ! (length tr + 4 * j + 3) =
                    Sleep (delay env (length tr + 4 * j + 2) (bo_attempt b + j)))"
  using assms
proof (induction n arbitrary: b tr)
  case 0
  show ?case by simp
next
  case (Suc n)
  let ?req = "Client_LoginByEmail (cred_Team cr) (cred_Login cr) (cred_Pass cr)"
  let ?log = "Log (LogRetryingLogin (cred_Team cr) (cred_Login cr) (cred_Server cr))"
  from Suc.prems obtain r0 e0 where first: "rest env (count_events is_Rest tr) ?req = (r0, Some e0)"
    and te: "transient e0"
    by force
  let ?d = "delay env (length tr + 2) (bo_attempt b)"
  let ?b1 = "b\<lparr>bo_attempt := Suc (bo_attempt b)\<rparr>"
  let ?tr1 = "tr @ [?log, Rest ?req, Log (LogLogin e0 ?d), Sleep ?d]"
  note step = login_attempt_retry [OF first te, of b]
  have c1: "count_events is_Rest ?tr1 = Suc (count_events is_Rest tr)"
    and s1: "count_events is_Sleep ?tr1 = Suc (count_events is_Sleep tr)"
    and l1: "length ?tr1 = length tr + 4"
    by (simp_all add: count_events_simps)
  have later: "\<forall>j<n. \<exists>r e. rest env (count_events is_Rest ?tr1 + j) ?req = (r, Some e) \<and> transient e"
  proof (intro allI impI)
    fix j
    assume "j < n"
    then have "Suc j < Suc n" by simp
    with Suc.prems have "\<exists>r e. rest env (count_events is_Rest tr + Suc j) ?req = (r, Some e) \<and> transient e"
      by blast
    then show "\<exists>r e. rest env (count_events is_Rest ?tr1 + j) ?req = (r, Some e) \<and> transient e"
      by (simp add: count_events_simps)
  qed
  from Suc.IH [OF later, of ?b1] obtain tr' where
    run: "login_attempts n env cr ?b1 ?tr1 = Inr (?b1\<lparr>bo_attempt := bo_attempt ?b1 + n\<rparr>, tr')"
    and len: "length tr' = length ?tr1 + 4 * n"
    and pre: "take (length ?tr1) tr' = ?tr1"
    and sl: "count_events is_Sleep tr' = count_events is_Sleep ?tr1 + n"
    and re: "count_events is_Rest tr' = count_events is_Rest ?tr1 + n"
    and rounds: "\<forall>j<n. \<exists>r e.
                  rest env (count_events is_Rest ?tr1 + j) ?req = (r, Some e) \<and>
                  tr' ! (length ?tr1 + 4 * j) = ?log \<and>
                  tr' ! (length ?tr1 + 4 * j + 1) = Rest ?req \<and>
                  tr' ! (length ?tr1 + 4 * j + 2) =
                    Log (LogLogin e (delay env (length ?tr1 + 4 * j + 2) (bo_attempt ?b1 + j))) \<and>
                  tr' ! (length ?tr1 + 4 * j + 3) =
                    Sleep (delay env (length ?tr1 + 4 * j + 2) (bo_attempt ?b1 + j))"
    by blast
  have nth1: "tr' ! i = ?tr1 ! i" if "i < length ?tr1" for i
  proof -
    have "take (length ?tr1) tr' ! i = tr' ! i"
      using that by (rule nth_take)
    then show ?thesis by (simp only: pre)
  qed
  have a: "login_attempts (Suc n) env cr b tr = Inr (b\<lparr>bo_attempt := bo_attempt b + Suc n\<rparr>, tr')"
    using run by (simp add: step)
  have b: "length tr' = length tr + 4 * Suc n"
    using len by simp
  have c: "take (length tr) tr' = tr"
  proof -
    have "take (length tr) tr' = take (length tr) (take (length ?tr1) tr')"
      by (simp add: min_def)
    then show ?thesis by (simp only: pre) simp
  qed
  have d: "count_events is_Sleep tr' = count_events is_Sleep tr + Suc n"
    using sl s1 by simp
  have e: "count_events is_Rest tr' = count_events is_Rest tr + Suc n"
    using re c1 by simp
  have f: "\<exists>r e.
             rest env (count_events is_Rest tr + j) ?req = (r, Some e) \<and>
             tr' ! (length tr + 4 * j) = ?log \<and>
             tr' ! (length tr + 4 * j + 1) = Rest ?req \<and>
             tr' ! (length tr + 4 * j + 2) =
               Log (LogLogin e (delay env (length tr + 4 * j + 2) (bo_attempt b + j))) \<and>
             tr' ! (length tr + 4 * j + 3) =
               Sleep (delay env (length tr + 4 * j + 2) (bo_attempt b + j))"
    if "j < Suc n" for j
  proof (cases j)
    case 0
    have "tr' ! (length tr) = ?log" "tr' ! (length tr + 1) = Rest ?req"
      "tr' ! (length tr + 2) = Log (LogLogin e0 ?d)" "tr' ! (length tr + 3) = Sleep ?d"
      by (simp_all add: nth1 nth_append)
    with first 0 show ?thesis by simp
  next
    case (Suc i)
    with that have "i < n" by simp
    with rounds obtain r e where
      g: "rest env (count_events is_Rest ?tr1 + i) ?req = (r, Some e)"
      "tr' ! (length ?tr1 + 4 * i) = ?log"
      "tr' ! (length ?tr1 + 4 * i + 1) = Rest ?req"
      "tr' ! (length ?tr1 + 4 * i + 2) =
         Log (LogLogin e (delay env (length ?tr1 + 4 * i + 2) (bo_attempt ?b1 + i)))"
      "tr' ! (length ?tr1 + 4 * i + 3) =
         Sleep (delay env (length ?tr1 + 4 * i + 2) (bo_attempt ?b1 + i))"
      by blast
    have ix: "length ?tr1 + 4 * i = length tr + 4 * j"
      and at: "bo_attempt ?b1 + i = bo_attempt b + j"
      and ct: "count_events is_Rest ?tr1 + i = count_events is_Rest tr + j"
      using Suc by (simp_all add: count_events_simps)
    note h = g [unfolded ix at ct]
    have "rest env (count_events is_Rest tr + j) ?req = (r, Some e) \<and>
             tr' ! (length tr + 4 * j) = ?log \<and>
             tr' ! (length tr + 4 * j + 1) = Rest ?req \<and>
             tr' ! (length tr + 4 * j + 2) =
               Log (LogLogin e (delay env (length tr + 4 * j + 2) (bo_attempt b + j))) \<and>
             tr' ! (length tr + 4 * j + 3) =
               Sleep (delay env (length tr + 4 * j + 2) (bo_attempt b + j))"
      by (intro conjI h)
    then show ?thesis by blast
  qed
  from a b c d e f show ?case by blast
qed

section \<open>Login and the two kinds of login error (C2)\<close>

text \<open>
  C2: let the first \<open>n\<close> answers to the login request be transient errors (the detail text
  has the connection-refused or the malformed-body marker). Then the loop of
  \<^verbatim>\<open>Login\<close> is still running after \<open>n\<close> passes, with the attempt counter of its
  backoff at \<open>n\<close>, and its trace has grown by exactly four events for each pass: the log
  line, the login request, the log of the error with the duration the backoff gives for
  that attempt (attempt \<open>j\<close> in pass \<open>j\<close>), and a sleep of that same duration. If the next
  answer is an error that is not transient, \<^verbatim>\<open>Login\<close> returns an error carrying that
  error's message, and after the \<open>n\<close> passes only the log line and the request were added:
  no sleep for the returning attempt, and with \<open>n = 0\<close> no sleep at all. If the next answer
  is a success, no error is returned. If all later answers are transient errors too,
  \<^verbatim>\<open>Login\<close> never returns; the hypothesis then holds for every \<open>n\<close>, so the loop backs
  off as described for as long as one looks.
\<close>

theorem Login_error_classification:
  assumes "\<forall>j<n. \<exists>r e.
             rest env (count_events is_Rest tr + j)
               (Client_LoginByEmail (cred_Team (Credentials m)) (cred_Login (Credentials m))
                  (cred_Pass (Credentials m))) = (r, Some e) \<and>
             transient e"
  shows "\<exists>tr'.
           login_attempts n env (Credentials m)
             \<lparr>bo_Min = 1000000000, bo_Max = 300000000000, bo_Jitter = True, bo_attempt = 0\<rparr> tr =
             Inr (\<lparr>bo_Min = 1000000000, bo_Max = 300000000000, bo_Jitter = True, bo_attempt = n\<rparr>, tr') \<and>
           length tr' = length tr + 4 * n \<and> take (length tr) tr' = tr \<and>
           count_events is_Sleep tr' = count_events is_Sleep tr + n \<and>
           count_events is_Rest tr' = count_events is_Rest tr + n \<and>
           (\<forall>j<n. \<exists>r e.
              rest env (count_events is_Rest tr + j)
                (Client_LoginByEmail (cred_Team (Credentials m)) (cred_Login (Credentials m))
                   (cred_Pass (Credentials m))) = (r, Some e) \<and>
              tr' ! (length tr + 4 * j) =
                Log (LogRetryingLogin (cred_Team (Credentials m)) (cred_Login (Credentials m))
                       (cred_Server (Credentials m))) \<and>
              tr' ! (length tr + 4 * j + 1) =
                Rest (Client_LoginByEmail (cred_Team (Credentials m)) (cred_Login (Credentials m))
                        (cred_Pass (Credentials m))) \<and>
              tr' ! (length tr + 4 * j + 2) = Log (LogLogin e (delay env (length tr + 4 * j + 2) j)) \<and>
              tr' ! (length tr + 4 * j + 3) = Sleep (delay env (length tr + 4 * j + 2) j)) \<and>
           (\<forall>r e.
              rest env (count_events is_Rest tr + n)
                (Client_LoginByEmail (cred_Team (Credentials m)) (cred_Login (Credentials m))
                   (cred_Pass (Credentials m))) = (r, Some e) \<longrightarrow>
              \<not> transient e \<longrightarrow>
              Login env m tr =
                Some (Inr (Some (err_Message e)),
                      m\<lparr>Client := Some \<lparr>client_Url =
                                (if cred_NoTLS (Credentials m) then ''http://'' else ''https://'') @
                                cred_Server (Credentials m),
                              client_AuthToken = ''''\<rparr>\<rparr>,
                      tr' @ [Log (LogRetryingLogin (cred_Team (Credentials m))
                                    (cred_Login (Credentials m)) (cred_Server (Credentials m))),
                             Rest (Client_LoginByEmail (cred_Team (Credentials m))
                                     (cred_Login (Credentials m)) (cred_Pass (Credentials m)))])) \<and>
           (\<forall>r. rest env (count_events is_Rest tr + n)
                  (Client_LoginByEmail (cred_Team (Credentials m)) (cred_Login (Credentials m))
                     (cred_Pass (Credentials m))) = (r, None) \<longrightarrow>
                (\<forall>msg m' tr''. Login env m tr \<noteq> Some (Inr (Some msg), m', tr''))) \<and>
           ((\<forall>j\<ge>n. \<exists>r e.
                rest env (count_events is_Rest tr + j)
                  (Client_LoginByEmail (cred_Team (Credentials m)) (cred_Login (Credentials m))
                     (cred_Pass (Credentials m))) = (r, Some e) \<and>
                transient e) \<longrightarrow>
              Login env m tr = None)"
proof -
  let ?req = "Client_LoginByEmail (cred_Team (Credentials m)) (cred_Login (Credentials m))
                (cred_Pass (Credentials m))"
  let ?log = "Log (LogRetryingLogin (cred_Team (Credentials m)) (cred_Login (Credentials m))
                     (cred_Server (Credentials m)))"
  let ?b0 = "\<lparr>bo_Min = 1000000000, bo_Max = 300000000000, bo_Jitter = True, bo_attempt = 0\<rparr>"
  let ?bn = "\<lparr>bo_Min = 1000000000, bo_Max = 300000000000, bo_Jitter = True, bo_attempt = n\<rparr>"
  from login_attempts_retries [OF assms, of ?b0] obtain tr1 where
    run: "login_attempts n env (Credentials m) ?b0 tr = Inr (?bn, tr1)"
    and len: "length tr1 = length tr + 4 * n"
    and pre: "take (length tr) tr1 = tr"
    and sleeps: "count_events is_Sleep tr1 = count_events is_Sleep tr + n"
    and rests: "count_events is_Rest tr1 = count_events is_Rest tr + n"
    and rounds: "\<forall>j<n. \<exists>r e.
              rest env (count_events is_Rest tr + j) ?req = (r, Some e) \<and>
              tr1 ! (length tr + 4 * j) = ?log \<and>
              tr1 ! (length tr + 4 * j + 1) = Rest ?req \<and>
              tr1 ! (length tr + 4 * j + 2) = Log (LogLogin e (delay env (length tr + 4 * j + 2) j)) \<and>
              tr1 ! (length tr + 4 * j + 3) = Sleep (delay env (length tr + 4 * j + 2) j)"
    by auto
  note same = login_loop_after_attempts [OF run]
  have rejected: "Login env m tr =
                Some (Inr (Some (err_Message e)),
                      m\<lparr>Client := Some \<lparr>client_Url =
                                (if cred_NoTLS (Credentials m) then ''http://'' else ''https://'') @
                                cred_Server (Credentials m),
                              client_AuthToken = ''''\<rparr>\<rparr>,
                      tr1 @ [?log, Rest ?req])"
    if "rest env (count_events is_Rest tr + n) ?req = (r, Some e)" and "\<not> transient e" for r e
  proof -
    from that(1) have "rest env (count_events is_Rest tr1) ?req = (r, Some e)"
      by (simp add: rests)
    from login_loop_return [OF this that(2), of ?bn]
    show ?thesis
      by (intro Login_of_return) (simp add: same)
  qed
  have forever: "Login env m tr = None"
    if "\<forall>j\<ge>n. \<exists>r e. rest env (count_events is_Rest tr + j) ?req = (r, Some e) \<and> transient e"
  proof -
    have "\<forall>j. \<exists>r e. rest env (count_events is_Rest tr1 + j) ?req = (r, Some e) \<and> transient e"
    proof
      fix j
      have "n \<le> n + j" by simp
      with that have "\<exists>r e. rest env (count_events is_Rest tr + (n + j)) ?req = (r, Some e) \<and> transient e"
        by blast
      then show "\<exists>r e. rest env (count_events is_Rest tr1 + j) ?req = (r, Some e) \<and> transient e"
        by (simp add: rests add.assoc)
    qed
    from login_loop_retries_forever [OF this, of ?bn]
    show ?thesis
      by (intro Login_of_forever) (simp add: same)
  qed
  have succeeded: "Login env m tr \<noteq> Some (Inr (Some msg), m', tr'')"
    if "rest env (count_events is_Rest tr + n) ?req = (r, None)" for r msg m' tr''
  proof -
    from that have "rest env (count_events is_Rest tr1) ?req = (r, None)"
      by (simp add: rests)
    from login_loop_break [OF this, of ?bn]
    show ?thesis
      by (intro Login_of_break) (simp add: same)
  qed
  show ?thesis
  proof (intro exI [of _ tr1] conjI allI impI)
    show "login_attempts n env (Credentials m) ?b0 tr = Inr (?bn, tr1)" by (rule run)
    show "length tr1 = length tr + 4 * n" by (rule len)
    show "take (length tr) tr1 = tr" by (rule pre)
    show "count_events is_Sleep tr1 = count_events is_Sleep tr + n" by (rule sleeps)
    show "count_events is_Rest tr1 = count_events is_Rest tr + n" by (rule rests)
  next
    fix j
    assume "j < n"
    with rounds show "\<exists>r e.
              rest env (count_events is_Rest tr + j) ?req = (r, Some e) \<and>
              tr1 ! (length tr + 4 * j) = ?log \<and>
              tr1 ! (length tr + 4 * j + 1) = Rest ?req \<and>
              tr1 ! (length tr + 4 * j + 2) = Log (LogLogin e (delay env (length tr + 4 * j + 2) j)) \<and>
              tr1 ! (length tr + 4 * j + 3) = Sleep (delay env (length tr + 4 * j + 2) j)"
      by blast
  next
    fix r e
    assume "rest env (count_events is_Rest tr + n) ?req = (r, Some e)" and "\<not> transient e"
    then show "Login env m tr =
                Some (Inr (Some (err_Message e)),
                      m\<lparr>Client := Some \<lparr>client_Url =
                                (if cred_NoTLS (Credentials m) then ''http://'' else ''https://'') @
                                cred_Server (Credentials m),
                              client_AuthToken = ''''\<rparr>\<rparr>,
                      tr1 @ [?log, Rest ?req])"
      by (rule rejected)
  next
    fix r msg m' tr''
    assume "rest env (count_events is_Rest tr + n) ?req = (r, None)"
    then show "Login env m tr \<noteq> Some (Inr (Some msg), m', tr'')"
      by (rule succeeded)
  next
    assume "\<forall>j\<ge>n. \<exists>r e. rest env (count_events is_Rest tr + j) ?req = (r, Some e) \<and> transient e"
    then show "Login env m tr = None"
      by (rule forever)
  qed
qed

lemma transient_examples: "transient refused" "\<not> transient rejected"
  by (simp_all add: transient_def refused_def rejected_def Contains_def)

text \<open>
  C2 on the concrete session, with a backoff that doubles from one second. A backend that
  refuses the connection twice and then rejects the password: two passes with sleeps of
  one and two seconds, then the error, with no further sleep. A backend that rejects at
  once: the error with no sleep. A backend that is down for good: \<^verbatim>\<open>Login\<close> never
  returns, and after three passes the loop has slept one, two and four seconds.
\<close>

theorem Login_error_classification_witness:
  "transient refused \<and> \<not> transient rejected \<and>
   Login backend_flaky session [] =
     Some (Inr (Some ''Login failed because of invalid password''),
           session\<lparr>Client := Some \<lparr>client_Url = ''https://chat.example.org'',
                                   client_AuthToken = ''''\<rparr>\<rparr>,
           [Log (LogRetryingLogin ''team'' ''alice@example.org'' ''chat.example.org''),
            Rest (Client_LoginByEmail ''team'' ''alice@example.org'' ''secret''),
            Log (LogLogin refused 1000000000), Sleep 1000000000,
            Log (LogRetryingLogin ''team'' ''alice@example.org'' ''chat.example.org''),
            Rest (Client_LoginByEmail ''team'' ''alice@example.org'' ''secret''),
            Log (LogLogin refused 2000000000), Sleep 2000000000,
            Log (LogRetryingLogin ''team'' ''alice@example.org'' ''chat.example.org''),
            Rest (Client_LoginByEmail ''team'' ''alice@example.org'' ''secret'')]) \<and>
   Login backend_rejecting session [] =
     Some (Inr (Some ''Login failed because of invalid password''),
           session\<lparr>Client := Some \<lparr>client_Url = ''https://chat.example.org'',
                                   client_AuthToken = ''''\<rparr>\<rparr>,
           [Log (LogRetryingLogin ''team'' ''alice@example.org'' ''chat.example.org''),
            Rest (Client_LoginByEmail ''team'' ''alice@example.org'' ''secret'')]) \<and>
   Login backend_down session [] = None \<and>
   login_attempts (Suc (Suc (Suc 0))) backend_down creds
     \<lparr>bo_Min = 1000000000, bo_Max = 300000000000, bo_Jitter = True, bo_attempt = 0\<rparr> [] =
     Inr (\<lparr>bo_Min = 1000000000, bo_Max = 300000000000, bo_Jitter = True, bo_attempt = 3\<rparr>,
          [Log (LogRetryingLogin ''team'' ''alice@example.org'' ''chat.example.org''),
           Rest (Client_LoginByEmail ''team'' ''alice@example.org'' ''secret''),
           Log (LogLogin refused 1000000000), Sleep 1000000000,
           Log (LogRetryingLogin ''team'' ''alice@example.org'' ''chat.example.org''),
           Rest (Client_LoginByEmail ''team'' ''alice@example.org'' ''secret''),
           Log (LogLogin refused 2000000000), Sleep 2000000000,
           Log (LogRetryingLogin ''team'' ''alice@example.org'' ''chat.example.org''),
           Rest (Client_LoginByEmail ''team'' ''alice@example.org'' ''secret''),
           Log (LogLogin refused 4000000000), Sleep 4000000000])"
proof -
  let ?req = "Client_LoginByEmail (cred_Team (Credentials session)) (cred_Login (Credentials session))
                (cred_Pass (Credentials session))"
  let ?b0 = "\<lparr>bo_Min = 1000000000, bo_Max = 300000000000, bo_Jitter = True, bo_attempt = 0\<rparr>"
  have shape: "cred_NoTLS (Credentials session) = False"
    "cred_Server (Credentials session) = ''chat.example.org''"
    "cred_Team (Credentials session) = ''team''"
    "cred_Login (Credentials session) = ''alice@example.org''"
    "cred_Pass (Credentials session) = ''secret''"
    "err_Message rejected = ''Login failed because of invalid password''"
    by (simp_all add: session_simps creds_def rejected_def)
  have markers: "Contains (err_DetailedError refused) ''connection refused''"
    using transient_examples(1) by (simp add: transient_def refused_def Contains_def)
  have flaky: "\<forall>j<Suc (Suc 0). \<exists>r e. rest backend_flaky (count_events is_Rest [] + j) ?req = (r, Some e) \<and>
                 transient e"
    by (simp add: backend_flaky_def backend_simps transient_examples count_events_simps
        less_Suc_eq)
  have flaky_then: "rest backend_flaky (count_events is_Rest [] + Suc (Suc 0)) ?req =
                      (None, Some rejected)"
    by (simp add: backend_flaky_def backend_simps count_events_simps)
  have flaky_run: "login_attempts (Suc (Suc 0)) backend_flaky (Credentials session) ?b0 [] =
     Inr (\<lparr>bo_Min = 1000000000, bo_Max = 300000000000, bo_Jitter = True, bo_attempt = Suc (Suc 0)\<rparr>,
          [Log (LogRetryingLogin ''team'' ''alice@example.org'' ''chat.example.org''),
           Rest (Client_LoginByEmail ''team'' ''alice@example.org'' ''secret''),
           Log (LogLogin refused 1000000000), Sleep 1000000000,
           Log (LogRetryingLogin ''team'' ''alice@example.org'' ''chat.example.org''),
           Rest (Client_LoginByEmail ''team'' ''alice@example.org'' ''secret''),
           Log (LogLogin refused 2000000000), Sleep 2000000000])"
    by (simp add: login_attempt_def Let_def Duration_def backend_flaky_def backend_simps
        count_events_simps shape markers)
  have a: "Login backend_flaky session [] =
     Some (Inr (Some ''Login failed because of invalid password''),
           session\<lparr>Client := Some \<lparr>client_Url = ''https://chat.example.org'',
                                   client_AuthToken = ''''\<rparr>\<rparr>,
           [Log (LogRetryingLogin ''team'' ''alice@example.org'' ''chat.example.org''),
            Rest (Client_LoginByEmail ''team'' ''alice@example.org'' ''secret''),
            Log (LogLogin refused 1000000000), Sleep 1000000000,
            Log (LogRetryingLogin ''team'' ''alice@example.org'' ''chat.example.org''),
            Rest (Client_LoginByEmail ''team'' ''alice@example.org'' ''secret''),
            Log (LogLogin refused 2000000000), Sleep 2000000000,
            Log (LogRetryingLogin ''team'' ''alice@example.org'' ''chat.example.org''),
            Rest (Client_LoginByEmail ''team'' ''alice@example.org'' ''secret'')])"
  proof -
    from Login_error_classification [OF flaky] obtain tr' where
      run: "login_attempts (Suc (Suc 0)) backend_flaky (Credentials session) ?b0 [] =
              Inr (\<lparr>bo_Min = 1000000000, bo_Max = 300000000000, bo_Jitter = True,
                    bo_attempt = Suc (Suc 0)\<rparr>, tr')"
      and out: "\<forall>r e. rest backend_flaky (count_events is_Rest [] + Suc (Suc 0)) ?req = (r, Some e) \<longrightarrow>
                 \<not> transient e \<longrightarrow>
                 Login backend_flaky session [] =
                   Some (Inr (Some (err_Message e)),
                         session\<lparr>Client := Some \<lparr>client_Url =
                                (if cred_NoTLS (Credentials session) then ''http://'' else ''https://'') @
                                cred_Server (Credentials session),
                              client_AuthToken = ''''\<rparr>\<rparr>,
                         tr' @ [Log (LogRetryingLogin (cred_Team (Credentials session))
                                       (cred_Login (Credentials session))
                                       (cred_Server (Credentials session))),
                                Rest ?req])"
      by blast
    from run flaky_run have "tr' =
          [Log (LogRetryingLogin ''team'' ''alice@example.org'' ''chat.example.org''),
           Rest (Client_LoginByEmail ''team'' ''alice@example.org'' ''secret''),
           Log (LogLogin refused 1000000000), Sleep 1000000000,
           Log (LogRetryingLogin ''team'' ''alice@example.org'' ''chat.example.org''),
           Rest (Client_LoginByEmail ''team'' ''alice@example.org'' ''secret''),
           Log (LogLogin refused 2000000000), Sleep 2000000000]"
      by simp
    with out [rule_format, OF flaky_then transient_examples(2)] show ?thesis
      by (simp add: shape)
  qed
  have none_before: "\<forall>j<0. \<exists>r e. rest backend_rejecting (count_events is_Rest [] + j) ?req = (r, Some e) \<and>
                   transient e"
    and none_before': "\<forall>j<0. \<exists>r e. rest backend_down (count_events is_Rest [] + j) ?req = (r, Some e) \<and>
                   transient e"
    by simp_all
  have rejecting: "rest backend_rejecting (count_events is_Rest [] + 0) ?req = (None, Some rejected)"
    by (simp add: backend_rejecting_def backend_simps)
  have b: "Login backend_rejecting session [] =
     Some (Inr (Some ''Login failed because of invalid password''),
           session\<lparr>Client := Some \<lparr>client_Url = ''https://chat.example.org'',
                                   client_AuthToken = ''''\<rparr>\<rparr>,
           [Log (LogRetryingLogin ''team'' ''alice@example.org'' ''chat.example.org''),
            Rest (Client_LoginByEmail ''team'' ''alice@example.org'' ''secret'')])"
  proof -
    from Login_error_classification [OF none_before] obtain tr' where
      run: "login_attempts 0 backend_rejecting (Credentials session) ?b0 [] = Inr (?b0, tr')"
      and out: "\<forall>r e. rest backend_rejecting (count_events is_Rest [] + 0) ?req = (r, Some e) \<longrightarrow>
                 \<not> transient e \<longrightarrow>
                 Login backend_rejecting session [] =
                   Some (Inr (Some (err_Message e)),
                         session\<lparr>Client := Some \<lparr>client_Url =
                                (if cred_NoTLS (Credentials session) then ''http://'' else ''https://'') @
                                cred_Server (Credentials session),
                              client_AuthToken = ''''\<rparr>\<rparr>,
                         tr' @ [Log (LogRetryingLogin (cred_Team (Credentials session))
                                       (cred_Login (Credentials session))
                                       (cred_Server (Credentials session))),
                                Rest ?req])"
      by blast
    from run have "tr' = []" by simp
    with out [rule_format, OF rejecting transient_examples(2)] show ?thesis
      by (simp add: shape)
  qed
  have down: "\<forall>j\<ge>0. \<exists>r e. rest backend_down (count_events is_Rest [] + j) ?req = (r, Some e) \<and>
                transient e"
    by (simp add: backend_down_def backend_simps transient_examples)
  have c: "Login backend_down session [] = None"
  proof -
    from Login_error_classification [OF none_before'] obtain tr' where
      "(\<forall>j\<ge>0. \<exists>r e. rest backend_down (count_events is_Rest [] + j) ?req = (r, Some e) \<and>
                transient e) \<longrightarrow> Login backend_down session [] = None"
      by blast
    with down show ?thesis by blast
  qed
  have d: "login_attempts (Suc (Suc (Suc 0))) backend_down creds ?b0 [] =
     Inr (\<lparr>bo_Min = 1000000000, bo_Max = 300000000000, bo_Jitter = True, bo_attempt = 3\<rparr>,
          [Log (LogRetryingLogin ''team'' ''alice@example.org'' ''chat.example.org''),
           Rest (Client_LoginByEmail ''team'' ''alice@example.org'' ''secret''),
           Log (LogLogin refused 1000000000), Sleep 1000000000,
           Log (LogRetryingLogin ''team'' ''alice@example.org'' ''chat.example.org''),
           Rest (Client_LoginByEmail ''team'' ''alice@example.org'' ''secret''),
           Log (LogLogin refused 2000000000), Sleep 2000000000,
           Log (LogRetryingLogin ''team'' ''alice@example.org'' ''chat.example.org''),
           Rest (Client_LoginByEmail ''team'' ''alice@example.org'' ''secret''),
           Log (LogLogin refused 4000000000), Sleep 4000000000])"
    using shape(3-5) [unfolded session_simps(7)]
    by (simp add: login_attempt_def Let_def Duration_def backend_down_def backend_simps
        count_events_simps markers creds_def)
  show ?thesis
    by (intro conjI transient_examples a b c d)
qed

subsection \<open>A login that succeeds\<close>

lemma dial_loop_connected:
  assumes "snd (dial env (count_events is_Dial tr) wsurl key val) = None"
  shows "dial_loop env wsurl key val b tr =
           Some (fst (dial env (count_events is_Dial tr) wsurl key val), b, tr @ [Dial wsurl key val])"
  using assms
  by (cases "dial env (count_events is_Dial tr) wsurl key val", subst dial_loop.simps)
     (simp add: Let_def)

lemma Login_connected:
  assumes "rest env (count_events is_Rest tr)
             (Client_LoginByEmail (cred_Team (Credentials m)) (cred_Login (Credentials m))
                (cred_Pass (Credentials m))) = (Some r, None)"
    and "res_Data r = DataUser u"
    and "rest env (Suc (count_events is_Rest tr)) (Client_GetMyTeam '''') = (Some r2, e2)"
    and "res_Data r2 = DataTeam t"
    and "dial env (count_events is_Dial tr)
           ((if cred_NoTLS (Credentials m) then ''ws://'' else ''wss://'') @
            cred_Server (Credentials m) @ ''/api/v1/websocket'')
           (HEADER_AUTH env) (''BEARER '' @ token env (count_events is_Rest tr)) = (ws, None)"
  shows "Login env m tr =
           Some (populate env
                   (m\<lparr>Client := Some \<lparr>client_Url =
                                       (if cred_NoTLS (Credentials m) then ''http://'' else ''https://'') @
                                       cred_Server (Credentials m),
                                     client_AuthToken = token env (count_events is_Rest tr)\<rparr>,
                      User := u, Team := t, WsClient := ws\<rparr>)
                   (tr @ [Log (LogRetryingLogin (cred_Team (Credentials m)) (cred_Login (Credentials m))
                                 (cred_Server (Credentials m))),
                          Rest (Client_LoginByEmail (cred_Team (Credentials m))
                                  (cred_Login (Credentials m)) (cred_Pass (Credentials m))),
                          Rest (Client_GetMyTeam ''''),
                          Dial ((if cred_NoTLS (Credentials m) then ''ws://'' else ''wss://'') @
                                cred_Server (Credentials m) @ ''/api/v1/websocket'')
                               (HEADER_AUTH env)
                               (''BEARER '' @ token env (count_events is_Rest tr))]))"
proof -
  note loop = login_loop_break [OF assms(1)]
  show ?thesis
    using assms(2-5)
    by (simp add: Login_def Let_def loop count_events_simps dial_loop_connected Reset_def)
qed

lemma backend_dropping_simps:
  "rest backend_dropping k = answers" "PostFromJson backend_dropping = decode"
  "ACTION_POSTED backend_dropping = ''posted''" "HEADER_AUTH backend_dropping = ''Authorization''"
  "token backend_dropping k = ''tok''" "dial backend_dropping k url key val = (Some (Suc k), None)"
  "ReadJSON backend_dropping k ws v =
     (if k = 0 then (\<lparr>raw_Action = ''posted'', raw_Props = [''post'' \<mapsto> ''news'']\<rparr>, None)
      else (v, Some ''websocket: close 1006''))"
  by (simp_all add: backend_dropping_def backend_up_def backend_def)

text \<open>Delivering the posted frame \<open>news\<close> in a session that has its user and channel cached.\<close>

lemma deliver_news:
  assumes "Credentials m = creds" and "Users m ''u1'' = Some alice"
    and "Channels m = Some a" and "MoreChannels m = Some b"
    and "name_of_id (cl_Channels a @ cl_Channels b) ''c1'' = Some ''town''"
  shows "deliver backend_dropping m (msg_Raw (envelope ''news'')) tr =
           (Inr (), m,
            tr @ [Send ((envelope ''news'')
                    \<lparr>msg_Username := ''alice'', msg_Channel := ''town'', msg_Text := ''news'',
                      msg_Post := Some \<lparr>post_UserId = ''u1'', post_ChannelId = ''c1'',
                                        post_Message = ''news''\<rparr>\<rparr>)])"
proof -
  have plain: "\<not> Contains ''town'' ''__''"
    by (simp add: Contains_def)
  have "GetChannelName backend_dropping m tr ''c1'' = (Inr ''town'', m, tr)"
    by (rule GetChannelName_hit [OF all_channels_Some [OF assms(3,4)] assms(5)])
  then show ?thesis
    using assms(1,2)
    by (simp add: deliver_def parseMessage_def parseActionPost_def envelope_def
        backend_dropping_simps decode_simps refresh_if_unknown_def username_of_def
        direct_message_plain [OF plain] creds_def alice_def)
qed

lemma first_pass:
  "WsReceiver_pass backend_dropping session \<lparr>raw_Action = '''', raw_Props = Map.empty\<rparr> [] =
     Some (Inr (), session, msg_Raw (envelope ''news''),
           [ReadJSON_on 0,
            Send ((envelope ''news'')
                    \<lparr>msg_Username := ''alice'', msg_Channel := ''town'', msg_Text := ''news'',
                      msg_Post := Some \<lparr>post_UserId = ''u1'', post_ChannelId = ''c1'',
                                        post_Message = ''news''\<rparr>\<rparr>)])"
proof -
  have hit: "name_of_id (cl_Channels \<lparr>cl_Channels = [town]\<rparr> @ cl_Channels \<lparr>cl_Channels = [offtopic]\<rparr>)
               ''c1'' = Some ''town''"
    by (simp add: name_of_id_def town_def offtopic_def)
  have u1: "Users session ''u1'' = Some alice"
    by (simp add: session_simps)
  have frame: "\<lparr>raw_Action = ''posted'', raw_Props = [''post'' \<mapsto> ''news'']\<rparr> = msg_Raw (envelope ''news'')"
    by (simp add: envelope_def)
  note d = deliver_news [OF session_simps(7) u1 session_simps(4) session_simps(5) hit]
  show ?thesis
    by (simp add: WsReceiver_pass_def session_simps(3) backend_dropping_simps count_events_simps
        frame d)
qed

lemma relogin:
  assumes "count_events is_Dial tr = 0"
  shows "Login backend_dropping session tr =
           Some (Inr None,
                 session\<lparr>WsClient := Some (Suc 0), Users := [''u1'' \<mapsto> alice, ''u2'' \<mapsto> bob],
                         Channels := Some \<lparr>cl_Channels = [town, direct]\<rparr>,
                         MoreChannels := Some \<lparr>cl_Channels = [offtopic]\<rparr>\<rparr>,
                 tr @ [Log (LogRetryingLogin ''team'' ''alice@example.org'' ''chat.example.org''),
                       Rest (Client_LoginByEmail ''team'' ''alice@example.org'' ''secret''),
                       Rest (Client_GetMyTeam ''''),
                       Dial ''wss://chat.example.org/api/v1/websocket'' ''Authorization'' ''BEARER tok'',
                       Rest (Client_GetProfiles ''t1'' ''''), Rest (Client_GetChannels ''''),
                       Rest (Client_GetMoreChannels '''')])"
proof -
  have "Login backend_dropping session tr =
          Some (populate backend_dropping
                  (session\<lparr>Client := Some \<lparr>client_Url = ''https://chat.example.org'',
                                            client_AuthToken = ''tok''\<rparr>,
                     User := Some alice, Team := Some \<lparr>team_Id = ''t1'', team_Name = ''team''\<rparr>,
                     WsClient := Some (Suc 0)\<rparr>)
                  (tr @ [Log (LogRetryingLogin ''team'' ''alice@example.org'' ''chat.example.org''),
                         Rest (Client_LoginByEmail ''team'' ''alice@example.org'' ''secret''),
                         Rest (Client_GetMyTeam ''''),
                         Dial ''wss://chat.example.org/api/v1/websocket'' ''Authorization''
                           ''BEARER tok'']))"
    using Login_connected [of backend_dropping tr session "\<lparr>res_Data = DataUser (Some alice)\<rparr>"
            "Some alice" "\<lparr>res_Data = DataTeam (Some \<lparr>team_Id = ''t1'', team_Name = ''team''\<rparr>)\<rparr>"
            None "Some \<lparr>team_Id = ''t1'', team_Name = ''team''\<rparr>" "Some (Suc 0)"] assms
    by (simp add: backend_dropping_simps answers_def session_simps creds_def)
  then show ?thesis
    by (simp add: populate_def UpdateUsers_def UpdateChannels_def rest_call_def Let_def
        backend_dropping_simps answers_def session_def count_events_simps alice_def)
qed

section \<open>The receiver loop after a failed read (C1)\<close>

text \<open>
  C1 asks that a failed read is followed by a re-login and the next read, with nothing
  sent for the pass whose read failed. The loop does re-login, but its error branch has no
  \<^verbatim>\<open>continue\<close>: it falls through to the lines that wrap, normalise and send the
  frame variable, which still holds the previous frame. On a stream that delivers one post
  and then drops, the second pass reads nothing, logs in again, and sends the same post a
  second time.
\<close>

theorem WsReceiver_sends_after_failed_read:
  "ReadJSON backend_dropping 1 0 (msg_Raw (envelope ''news'')) =
     (msg_Raw (envelope ''news''), Some ''websocket: close 1006'') \<and>
   WsReceiver (Suc (Suc 0)) backend_dropping session [] =
     Some (Inr (),
           session\<lparr>WsClient := Some (Suc 0), Users := [''u1'' \<mapsto> alice, ''u2'' \<mapsto> bob],
                   Channels := Some \<lparr>cl_Channels = [town, direct]\<rparr>,
                   MoreChannels := Some \<lparr>cl_Channels = [offtopic]\<rparr>\<rparr>,
           msg_Raw (envelope ''news''),
           [ReadJSON_on 0,
            Send ((envelope ''news'')
                    \<lparr>msg_Username := ''alice'', msg_Channel := ''town'', msg_Text := ''news'',
                      msg_Post := Some \<lparr>post_UserId = ''u1'', post_ChannelId = ''c1'',
                                        post_Message = ''news''\<rparr>\<rparr>),
            ReadJSON_on 0,
            Log (LogError ''websocket: close 1006''),
            Log (LogRetryingLogin ''team'' ''alice@example.org'' ''chat.example.org''),
            Rest (Client_LoginByEmail ''team'' ''alice@example.org'' ''secret''),
            Rest (Client_GetMyTeam ''''),
            Dial ''wss://chat.example.org/api/v1/websocket'' ''Authorization'' ''BEARER tok'',
            Rest (Client_GetProfiles ''t1'' ''''), Rest (Client_GetChannels ''''),
            Rest (Client_GetMoreChannels ''''),
            Send ((envelope ''news'')
                    \<lparr>msg_Username := ''alice'', msg_Channel := ''town'', msg_Text := ''news'',
                      msg_Post := Some \<lparr>post_UserId = ''u1'', post_ChannelId = ''c1'',
                                        post_Message = ''news''\<rparr>\<rparr>)])"
proof -
  let ?sent = "Send ((envelope ''news'')
                    \<lparr>msg_Username := ''alice'', msg_Channel := ''town'', msg_Text := ''news'',
                      msg_Post := Some \<lparr>post_UserId = ''u1'', post_ChannelId = ''c1'',
                                        post_Message = ''news''\<rparr>\<rparr>)"
  let ?again = "session\<lparr>WsClient := Some (Suc 0), Users := [''u1'' \<mapsto> alice, ''u2'' \<mapsto> bob],
                   Channels := Some \<lparr>cl_Channels = [town, direct]\<rparr>,
                   MoreChannels := Some \<lparr>cl_Channels = [offtopic]\<rparr>\<rparr>"
  have failed: "ReadJSON backend_dropping 1 0 (msg_Raw (envelope ''news'')) =
                  (msg_Raw (envelope ''news''), Some ''websocket: close 1006'')"
    by (simp add: backend_dropping_simps)
  have login: "Login backend_dropping session
                 [ReadJSON_on 0, ?sent, ReadJSON_on 0, Log (LogError ''websocket: close 1006'')] =
               Some (Inr None, ?again,
                     [ReadJSON_on 0, ?sent, ReadJSON_on 0, Log (LogError ''websocket: close 1006''),
                      Log (LogRetryingLogin ''team'' ''alice@example.org'' ''chat.example.org''),
                      Rest (Client_LoginByEmail ''team'' ''alice@example.org'' ''secret''),
                      Rest (Client_GetMyTeam ''''),
                      Dial ''wss://chat.example.org/api/v1/websocket'' ''Authorization'' ''BEARER tok'',
                      Rest (Client_GetProfiles ''t1'' ''''), Rest (Client_GetChannels ''''),
                      Rest (Client_GetMoreChannels '''')])"
    using relogin [of "[ReadJSON_on 0, ?sent, ReadJSON_on 0, Log (LogError ''websocket: close 1006'')]"]
    by (simp add: count_events_simps)
  have hit: "name_of_id (cl_Channels \<lparr>cl_Channels = [town, direct]\<rparr> @
                         cl_Channels \<lparr>cl_Channels = [offtopic]\<rparr>) ''c1'' = Some ''town''"
    by (simp add: name_of_id_def town_def direct_def offtopic_def)
  have again: "Credentials ?again = creds" "Users ?again ''u1'' = Some alice"
    "Channels ?again = Some \<lparr>cl_Channels = [town, direct]\<rparr>"
    "MoreChannels ?again = Some \<lparr>cl_Channels = [offtopic]\<rparr>"
    by (simp_all add: session_simps)
  note d = deliver_news [OF again hit]
  have second: "WsReceiver_pass backend_dropping session (msg_Raw (envelope ''news''))
                  [ReadJSON_on 0, ?sent] =
                Some (Inr (), ?again, msg_Raw (envelope ''news''),
                      [ReadJSON_on 0, ?sent, ReadJSON_on 0, Log (LogError ''websocket: close 1006''),
                       Log (LogRetryingLogin ''team'' ''alice@example.org'' ''chat.example.org''),
                       Rest (Client_LoginByEmail ''team'' ''alice@example.org'' ''secret''),
                       Rest (Client_GetMyTeam ''''),
                       Dial ''wss://chat.example.org/api/v1/websocket'' ''Authorization'' ''BEARER tok'',
                       Rest (Client_GetProfiles ''t1'' ''''), Rest (Client_GetChannels ''''),
                       Rest (Client_GetMoreChannels ''''), ?sent])"
    by (simp add: WsReceiver_pass_def session_simps(3) backend_dropping_simps count_events_simps
        login d)
  have "WsReceiver (Suc (Suc 0)) backend_dropping session [] =
          Some (Inr (), ?again, msg_Raw (envelope ''news''),
                [ReadJSON_on 0, ?sent, ReadJSON_on 0, Log (LogError ''websocket: close 1006''),
                 Log (LogRetryingLogin ''team'' ''alice@example.org'' ''chat.example.org''),
                 Rest (Client_LoginByEmail ''team'' ''alice@example.org'' ''secret''),
                 Rest (Client_GetMyTeam ''''),
                 Dial ''wss://chat.example.org/api/v1/websocket'' ''Authorization'' ''BEARER tok'',
                 Rest (Client_GetProfiles ''t1'' ''''), Rest (Client_GetChannels ''''),
                 Rest (Client_GetMoreChannels ''''), ?sent])"
    by (simp add: WsReceiver_def first_pass second)
  with failed show ?thesis
    by (intro conjI)
qed

text \<open>
  The same holds on every input: a pass whose read fails and that comes to its end has
  sent a message as its last effect.
\<close>

lemma WsReceiver_pass_failed_read_sends:
  assumes "WsClient m = Some ws"
    and "snd (ReadJSON env (count_events is_ReadJSON tr) ws rmsg) = Some e"
    and "WsReceiver_pass env m rmsg tr = Some (Inr (), m', rmsg', tr')"
  shows "tr' \<noteq> [] \<and> is_Send (last tr')"
  using assms
  by (auto simp: WsReceiver_pass_def deliver_def Let_def
      split: option.splits prod.splits sum.splits)

end
